theory Spec2Isabelle
  imports Main
begin

section \<open>The client core of hlf-sdk-go: data model\<close>

text \<open>
  This theory embeds \<^verbatim>\<open>src/client/core.go\<close>: the constructor \<^verbatim>\<open>NewCore\<close> and the
  methods \<^verbatim>\<open>Channel\<close> and \<^verbatim>\<open>Chaincode\<close> of the struct \<^verbatim>\<open>core\<close>.

  Objects of other packages (connections, orderers, peers, pools, crypto suites,
  identities, discovery providers) are opaque handles; what the other packages compute
  is a parameter of the model, the record \<open>env\<close> below. A Go pointer or interface
  value that may be nil is an \<open>option\<close>. A Go function returning \<^verbatim>\<open>(value, error)\<close> is a
  function into a pair of options, since core.go reads the value and the error
  separately; of the orderer constructor's value the pair says whether it is nil. Calls into the collaborators and log entries are recorded, in order, as
  events.
\<close>

subsection \<open>Errors\<close>

datatype error =
    ErrEmptyConfig
    \<comment> \<open>\<^verbatim>\<open>api.ErrEmptyConfig\<close>\<close>
  | Opaque nat
    \<comment> \<open>an error value made by a collaborator\<close>
  | Fundamental string
    \<comment> \<open>\<^verbatim>\<open>errors.New(msg)\<close>, \<^verbatim>\<open>fmt.Errorf\<close> with the message formatted\<close>
  | WithMessage error string
    \<comment> \<open>\<^verbatim>\<open>errors.Wrap(cause, msg)\<close> for a cause that is not nil\<close>
  | EndorsersError string error
    \<comment> \<open>\<^verbatim>\<open>errors.Errorf("failed to initialize endorsers for MSP: %s:%s", name, err.Error())\<close>\<close>

text \<open>
  \<^verbatim>\<open>errors.Wrap\<close> of github.com/pkg/errors: "If err is nil, Wrap returns nil."
\<close>

fun Wrap :: "error option \<Rightarrow> string \<Rightarrow> error option" where
  "Wrap None message = None"
| "Wrap (Some err) message = Some (WithMessage err message)"

subsection \<open>Handles of the collaborating packages\<close>

datatype Context = Background | CallerContext nat
datatype Logger = DefaultLogger | CallerLogger nat
datatype TlsConfig = TlsConfig nat
datatype ClientConn = ClientConn nat
datatype Orderer = Orderer nat
datatype Peer = Peer nat
datatype PeerPool = PeerPool nat
datatype CryptoSuite = CryptoSuite nat
datatype Identity = Identity nat
datatype SigningIdentity = SigningIdentity nat
datatype DiscoveryProvider = DiscoveryProvider nat
datatype TLSCertsMapper = TLSCertsMapper nat
datatype CCFetcher = LocalGolangFetcher | CallerFetcher nat
datatype Strategy = StrategyGRPC nat
datatype LSCC = NewLSCC "PeerPool option" "SigningIdentity option"

subsection \<open>Configuration and discovery results\<close>

record ConnectionConfig =
  Host :: string
  Tls :: TlsConfig

record CryptoConfig =
  crypto_Type :: string
  crypto_Options :: nat

record MSPConfig =
  msp_Name :: string
  Endorsers :: "ConnectionConfig list"

record DiscoveryConfig =
  discovery_Type :: string
  discovery_Options :: nat
  Connection :: "ConnectionConfig option"

record Config =
  Crypto :: CryptoConfig
  MSP :: "MSPConfig list"
  TLSCertsMap :: nat
  Discovery :: DiscoveryConfig
  Orderers :: "ConnectionConfig list"

text \<open>
  \<^verbatim>\<open>api.HostAddress\<close>, \<^verbatim>\<open>api.HostEndpoint\<close> and the result of a channel lookup
  (\<^verbatim>\<open>api.ChannelDiscoverer\<close>, read through its two methods). The slices hold pointers;
  the model takes them as not nil.
\<close>

record HostAddress =
  Address :: string
  TLSSettings :: TlsConfig

record HostEndpoint =
  MspID :: string
  HostAddresses :: "HostAddress list"

record ChannelDiscoverer =
  Orderers_of :: "HostEndpoint list"
  ChannelName :: string

subsection \<open>Events\<close>

datatype level = DebugLevel | InfoLevel | ErrorLevel

datatype event =
    Log level string "error option"
    \<comment> \<open>a log entry: level, message, the \<^verbatim>\<open>zap.Error\<close> field if any\<close>
  | OptionApplied nat
    \<comment> \<open>the option at this position of \<^verbatim>\<open>opts\<close> was called\<close>
  | DiscoveryChannel string
    \<comment> \<open>\<^verbatim>\<open>c.discoveryProvider.Channel(c.ctx, name)\<close>\<close>
  | GRPCConnectionFromConfigs "ConnectionConfig list"
    \<comment> \<open>\<^verbatim>\<open>util.NewGRPCConnectionFromConfigs(ctx, logger, cfgs...)\<close>\<close>
  | OrdererFromGRPC "ClientConn option"
    \<comment> \<open>\<^verbatim>\<open>orderer.NewFromGRPC(ctx, conn)\<close>\<close>
  | ChannelConstructed string nat
    \<comment> \<open>\<^verbatim>\<open>channel.NewCore(...)\<close> for this name made the object at this address\<close>
  | PackageConstructed string nat
    \<comment> \<open>\<^verbatim>\<open>chaincode.NewCorePackage(...)\<close> for this name made the object at this address\<close>

subsection \<open>The values the caches hold\<close>

text \<open>
  \<^verbatim>\<open>channel.NewCore\<close> and \<^verbatim>\<open>chaincode.NewCorePackage\<close> return a pointer to a new
  object. The model keeps the constructor's arguments and the address of the object,
  taken from a counter of allocations: two handles are the same reference when their
  addresses are equal. An orderer is known by its address alone, the number in
  \<open>Orderer\<close>, taken from the same counter when the orderer is constructed.
\<close>

record ChannelCore =
  ch_addr :: nat
  ch_mspId :: string
  ch_name :: string
  ch_peerPool :: "PeerPool option"
  ch_orderer :: "Orderer option"
  ch_discoveryProvider :: "DiscoveryProvider option"
  ch_identity :: "SigningIdentity option"
  ch_fabricV2 :: bool
  ch_logger :: "Logger option"

record CorePackage =
  cc_addr :: nat
  cc_name :: string
  cc_lscc :: LSCC
  cc_fetcher :: "CCFetcher option"
  cc_orderer :: "Orderer option"
  cc_identity :: "SigningIdentity option"

subsection \<open>The struct \<^verbatim>\<open>core\<close>\<close>

record core =
  ctx :: "Context option"
  logger :: "Logger option"
  config :: "Config option"
  mspId :: string
  identity :: "SigningIdentity option"
  peerPool :: "PeerPool option"
  orderer :: "Orderer option"
  discoveryProvider :: "DiscoveryProvider option"
  channels :: "string \<rightharpoonup> ChannelCore"
  chaincodes :: "string \<rightharpoonup> CorePackage"
  cs :: "CryptoSuite option"
  fetcher :: "CCFetcher option"
  fabricV2 :: bool

text \<open>
  The program state a method call runs in: the Core, the events so far and the number of
  objects allocated so far.
\<close>

record world =
  w_core :: core
  w_trace :: "event list"
  w_allocs :: nat

datatype 'a result = Panic string | Returned 'a

subsection \<open>What the other packages compute\<close>

record env =
  LocalConfigServiceDiscoveryType :: string
  GossipServiceDiscoveryType :: string
  ecdsa_DefaultConfig :: CryptoConfig
  GetSuite :: "string \<Rightarrow> nat \<Rightarrow> CryptoSuite option \<times> error option"
  GetSigningIdentity :: "Identity \<Rightarrow> CryptoSuite option \<Rightarrow> SigningIdentity option"
  pool_New :: "Context option \<Rightarrow> Logger option \<Rightarrow> PeerPool option"
  peer_New :: "ConnectionConfig \<Rightarrow> Logger option \<Rightarrow> Peer option \<times> error option"
  pool_Add :: "PeerPool \<Rightarrow> string \<Rightarrow> Peer option \<Rightarrow> Strategy \<Rightarrow> error option \<times> PeerPool"
  NewTLSCertsMapper :: "nat \<Rightarrow> TLSCertsMapper option"
  NewLocalConfigProvider ::
    "nat \<Rightarrow> TLSCertsMapper option \<Rightarrow> DiscoveryProvider option \<times> error option"
  Serialize :: "SigningIdentity \<Rightarrow> nat \<times> error option"
  TlsConfigForAddress :: "TLSCertsMapper option \<Rightarrow> string \<Rightarrow> TlsConfig option"
  NewGossipDiscoveryProvider ::
    "Context option \<Rightarrow> ConnectionConfig \<Rightarrow> Logger option \<Rightarrow> SigningIdentity \<Rightarrow> nat \<Rightarrow>
     TLSCertsMapper option \<Rightarrow> DiscoveryProvider option \<times> error option"
  LocalPeers :: "DiscoveryProvider \<Rightarrow> Context option \<Rightarrow> HostEndpoint list option \<times> error option"
  discovery_Channel ::
    "DiscoveryProvider \<Rightarrow> Context option \<Rightarrow> string \<Rightarrow> ChannelDiscoverer option \<times> error option"
  NewGRPCConnectionFromConfigs ::
    "Context option \<Rightarrow> Logger option \<Rightarrow> ConnectionConfig list \<Rightarrow> ClientConn option \<times> error option"
  NewFromGRPC :: "Context option \<Rightarrow> ClientConn option \<Rightarrow> bool \<times> error option"

text \<open>
  \<^verbatim>\<open>orderer.NewFromGRPC\<close> returns an orderer or nil, and an error or nil; its code is not
  in core.go. What it decides is a parameter: whether the value it returns is an
  orderer, and the error. When it returns an orderer it is a new object, as with the two
  constructors of the cached values, and the model places it at the next free address.
\<close>

definition newOrderer :: "nat \<Rightarrow> bool \<times> error option \<Rightarrow> Orderer option" where
  "newOrderer addr made = (if fst made then Some (Orderer addr) else None)"

definition nil_dereference :: string where
  "nil_dereference = ''runtime error: invalid memory address or nil pointer dereference''"

section \<open>\<^verbatim>\<open>Channel\<close> (core.go, lines 85 to 138)\<close>

text \<open>The messages of its log entries (lines 97, 100, 122 and 125).\<close>

definition initiating_new :: string where
  "initiating_new = ''Channel instance doesn't exist, initiating new''"

definition failed_discovery :: string where
  "failed_discovery = ''Failed channel discovery. We'll use default orderer''"

definition failed_connection :: string where
  "failed_connection = ''Failed to initialize custom GRPC connection for orderer''"

definition failed_orderer :: string where
  "failed_orderer = ''Failed to construct orderer from GRPC connection''"

text \<open>Lines 108 to 118: the two nested loops that fill \<^verbatim>\<open>grpcConnCfgs\<close>.\<close>

fun appendHostAddresses :: "ConnectionConfig list \<Rightarrow> HostAddress list \<Rightarrow> ConnectionConfig list" where
  "appendHostAddresses grpcConnCfgs [] = grpcConnCfgs"
| "appendHostAddresses grpcConnCfgs (hostAddr # rest) =
     appendHostAddresses
       (grpcConnCfgs @ [\<lparr>Host = Address hostAddr, Tls = TLSSettings hostAddr\<rparr>]) rest"

fun appendOrderers :: "ConnectionConfig list \<Rightarrow> HostEndpoint list \<Rightarrow> ConnectionConfig list" where
  "appendOrderers grpcConnCfgs [] = grpcConnCfgs"
| "appendOrderers grpcConnCfgs (ord # rest) =
     appendOrderers
       (if length (HostAddresses ord) > 0
        then appendHostAddresses grpcConnCfgs (HostAddresses ord)
        else grpcConnCfgs) rest"

text \<open>
  Lines 119 to 126: the branch for a lookup that returned orderers. The error of the
  connection build is logged and the orderer is constructed from \<^verbatim>\<open>ordConn\<close> all the
  same; the value \<^verbatim>\<open>ord\<close> is whatever \<^verbatim>\<open>orderer.NewFromGRPC\<close> returned. \<open>addr\<close> is the
  next free address.
\<close>

definition customOrderer ::
  "env \<Rightarrow> core \<Rightarrow> nat \<Rightarrow> HostEndpoint list \<Rightarrow> event list \<times> Orderer option" where
  "customOrderer e c addr orderers =
     (let grpcConnCfgs = appendOrderers [] orderers;
          built = NewGRPCConnectionFromConfigs e (ctx c) (logger c) grpcConnCfgs;
          ordConn = fst built;
          made = NewFromGRPC e (ctx c) ordConn
      in ([GRPCConnectionFromConfigs grpcConnCfgs]
          @ (if snd built \<noteq> None
             then [Log ErrorLevel failed_connection (snd built)]
             else [])
          @ [OrdererFromGRPC ordConn]
          @ (if snd made \<noteq> None
             then [Log ErrorLevel failed_orderer None]
             else []),
          newOrderer addr made))"

text \<open>
  Lines 95 to 128: the value of \<^verbatim>\<open>ord\<close> before the default is applied. Calling a method
  of the nil interface \<^verbatim>\<open>c.discoveryProvider\<close> panics, and so does calling
  \<^verbatim>\<open>Orderers()\<close> on a nil result returned without an error.
\<close>

definition discoverOrderer ::
  "env \<Rightarrow> core \<Rightarrow> nat \<Rightarrow> string \<Rightarrow> event list \<times> Orderer option result" where
  "discoverOrderer e c addr name =
     (case discoveryProvider c of
        None \<Rightarrow> ([Log DebugLevel initiating_new None], Panic nil_dereference)
      | Some provider \<Rightarrow>
         (case discovery_Channel e provider (ctx c) name of
            (discChannel, err) \<Rightarrow>
              (case err of
                 Some x \<Rightarrow>
                   ([Log DebugLevel initiating_new None, DiscoveryChannel name,
                     Log ErrorLevel failed_discovery err],
                    Returned None)
               | None \<Rightarrow>
                  (case discChannel of
                     None \<Rightarrow>
                       ([Log DebugLevel initiating_new None, DiscoveryChannel name],
                        Panic nil_dereference)
                   | Some d \<Rightarrow>
                      (if length (Orderers_of d) > 0
                       then (case customOrderer e c addr (Orderers_of d) of
                               (evs, ord) \<Rightarrow>
                                 ([Log DebugLevel initiating_new None, DiscoveryChannel name] @ evs,
                                  Returned ord))
                       else ([Log DebugLevel initiating_new None, DiscoveryChannel name],
                             Returned None))))))"

text \<open>
  The whole method. \<^verbatim>\<open>c.logger.Named\<close> on line 86 dereferences the logger. A cached
  name returns its entry at once; otherwise the orderer is resolved, the default is
  taken when \<^verbatim>\<open>ord\<close> is nil, and the new Channel is stored and returned. The Channel
  is allocated after the channel-specific orderer, when one was constructed.
\<close>

definition Channel :: "env \<Rightarrow> world \<Rightarrow> string \<Rightarrow> ChannelCore result \<times> world" where
  "Channel e w name =
     (let c = w_core w in
      case logger c of
        None \<Rightarrow> (Panic nil_dereference, w)
      | Some lg \<Rightarrow>
         (case channels c name of
            Some ch \<Rightarrow> (Returned ch, w)
          | None \<Rightarrow>
             (case discoverOrderer e c (w_allocs w) name of
                (evs, Panic msg) \<Rightarrow> (Panic msg, w\<lparr>w_trace := w_trace w @ evs\<rparr>)
              | (evs, Returned found) \<Rightarrow>
                 (let ord = (case found of None \<Rightarrow> orderer c | Some x \<Rightarrow> Some x);
                      addr = (case found of None \<Rightarrow> w_allocs w | Some x \<Rightarrow> Suc (w_allocs w));
                      ch = \<lparr>ch_addr = addr, ch_mspId = mspId c, ch_name = name,
                            ch_peerPool = peerPool c, ch_orderer = ord,
                            ch_discoveryProvider = discoveryProvider c,
                            ch_identity = identity c, ch_fabricV2 = fabricV2 c,
                            ch_logger = logger c\<rparr>
                  in (Returned ch,
                      \<lparr>w_core = c\<lparr>channels := (channels c)(name \<mapsto> ch)\<rparr>,
                       w_trace = w_trace w @ evs @ [ChannelConstructed name addr],
                       w_allocs = Suc addr\<rparr>)))))"

section \<open>\<^verbatim>\<open>Chaincode\<close> (core.go, lines 55 to 67)\<close>

definition Chaincode :: "world \<Rightarrow> string \<Rightarrow> CorePackage result \<times> world" where
  "Chaincode w name =
     (let c = w_core w in
      case chaincodes c name of
        Some cc \<Rightarrow> (Returned cc, w)
      | None \<Rightarrow>
         (let cc = \<lparr>cc_addr = w_allocs w, cc_name = name,
                     cc_lscc = NewLSCC (peerPool c) (identity c),
                     cc_fetcher = fetcher c, cc_orderer = orderer c,
                     cc_identity = identity c\<rparr>
          in (Returned cc,
              \<lparr>w_core = c\<lparr>chaincodes := (chaincodes c)(name \<mapsto> cc)\<rparr>,
               w_trace = w_trace w @ [PackageConstructed name (w_allocs w)],
               w_allocs = Suc (w_allocs w)\<rparr>)))"

text \<open>
  A Core's life after construction is a sequence of calls of its two caching methods
  (the accessors read fields and change nothing). A call that panics leaves the caches
  as they were.
\<close>

datatype call = CallChannel string | CallChaincode string

fun perform :: "env \<Rightarrow> world \<Rightarrow> call \<Rightarrow> world" where
  "perform e w (CallChannel name) = snd (Channel e w name)"
| "perform e w (CallChaincode name) = snd (Chaincode w name)"

fun run :: "env \<Rightarrow> world \<Rightarrow> call list \<Rightarrow> world" where
  "run e w [] = w"
| "run e w (x # xs) = run e (perform e w x) xs"

section \<open>\<^verbatim>\<open>NewCore\<close> (core.go, lines 144 to 297)\<close>

text \<open>
  An option is a \<^verbatim>\<open>func(*core) error\<close>: it may change the Core and returns an error or
  nil. A step of the constructor goes on with a value, returns the pair
  \<^verbatim>\<open>(api.Core, error)\<close>, or panics.
\<close>

type_synonym CoreOpt = "core \<Rightarrow> error option \<times> core"

datatype 'a flow = Next 'a | Return "core option" "error option" | Abort string

definition andThen ::
  "event list \<times> core flow \<Rightarrow> (core \<Rightarrow> event list \<times> core flow) \<Rightarrow> event list \<times> core flow" where
  "andThen r f =
     (case r of
        (evs, Next c) \<Rightarrow> (case f c of (evs', r') \<Rightarrow> (evs @ evs', r'))
      | (evs, Return a b) \<Rightarrow> (evs, Return a b)
      | (evs, Abort msg) \<Rightarrow> (evs, Abort msg))"

text \<open>Lines 146 to 150.\<close>

definition newCore :: "string \<Rightarrow> core" where
  "newCore msp =
     \<lparr>ctx = None, logger = None, config = None, mspId = msp, identity = None,
      peerPool = None, orderer = None, discoveryProvider = None,
      channels = Map.empty, chaincodes = Map.empty, cs = None, fetcher = None,
      fabricV2 = False\<rparr>"

text \<open>Lines 152 to 156; \<open>i\<close> is the position of the next option in \<^verbatim>\<open>opts\<close>.\<close>

fun applyOptions :: "nat \<Rightarrow> CoreOpt list \<Rightarrow> core \<Rightarrow> event list \<times> core flow" where
  "applyOptions i [] c = ([], Next c)"
| "applyOptions i (option # opts) c =
     (case option c of
        (Some err, c') \<Rightarrow>
          ([OptionApplied i], Return None (Wrap (Some err) ''failed to apply option''))
      | (None, c') \<Rightarrow>
          (case applyOptions (Suc i) opts c' of (evs, r) \<Rightarrow> (OptionApplied i # evs, r)))"

text \<open>Lines 158 to 164.\<close>

definition applyDefaults :: "core \<Rightarrow> event list \<times> core flow" where
  "applyDefaults c =
     (let c1 = (if ctx c = None then c\<lparr>ctx := Some Background\<rparr> else c);
          c2 = (if logger c1 = None then c1\<lparr>logger := Some DefaultLogger\<rparr> else c1)
      in ([], Next c2))"

text \<open>Lines 166 to 178.\<close>

definition initCryptoSuite :: "env \<Rightarrow> core \<Rightarrow> event list \<times> core flow" where
  "initCryptoSuite e c =
     (if cs c = None
      then ([Log InfoLevel ''initializing crypto suite'' None],
            case config c of
              None \<Rightarrow> Return None (Some ErrEmptyConfig)
            | Some cfg \<Rightarrow>
               (let cfg' = (if crypto_Type (Crypto cfg) = []
                            then cfg\<lparr>Crypto := ecdsa_DefaultConfig e\<rparr> else cfg);
                    got = GetSuite e (crypto_Type (Crypto cfg')) (crypto_Options (Crypto cfg'))
                in if snd got \<noteq> None
                   then Return None (Wrap (snd got) ''failed to initialize crypto suite'')
                   else Next (c\<lparr>config := Some cfg', cs := fst got\<rparr>)))
      else ([], Next c))"

text \<open>Lines 180 to 184.\<close>

definition identity_missing :: string where
  "identity_missing = ''identity wasn'' @ [CHR 0x27] @ ''t provided''"

definition initIdentity :: "env \<Rightarrow> Identity option \<Rightarrow> core \<Rightarrow> event list \<times> core flow" where
  "initIdentity e idn c =
     (case idn of
        None \<Rightarrow> ([], Return None (Some (Fundamental identity_missing)))
      | Some i \<Rightarrow> ([], Next (c\<lparr>identity := GetSigningIdentity e i (cs c)\<rparr>)))"

text \<open>
  Lines 195 to 203 and, with the connection descriptor built from each address, lines
  254 to 266: one peer per descriptor, added to the pool under the organization's name.
  The \<^verbatim>\<open>err\<close> of these loops is declared inside them.
\<close>

fun addPeers ::
  "env \<Rightarrow> Logger option \<Rightarrow> string \<Rightarrow> ConnectionConfig list \<Rightarrow> PeerPool option \<Rightarrow> PeerPool option flow" where
  "addPeers e lg name [] pool = Next pool"
| "addPeers e lg name (peerConfig # rest) pool =
     (case peer_New e peerConfig lg of
        (p, Some err) \<Rightarrow> Return None (Some (EndorsersError name err))
      | (p, None) \<Rightarrow>
         (case pool of
            None \<Rightarrow> Abort nil_dereference
          | Some pl \<Rightarrow>
             (case pool_Add e pl name p (StrategyGRPC 5) of
                (Some err, pl') \<Rightarrow> Return None (Wrap (Some err) ''failed to add peer to pool'')
              | (None, pl') \<Rightarrow> addPeers e lg name rest (Some pl'))))"

text \<open>Lines 194 to 204.\<close>

fun addMSPs :: "env \<Rightarrow> Logger option \<Rightarrow> MSPConfig list \<Rightarrow> PeerPool option \<Rightarrow> PeerPool option flow" where
  "addMSPs e lg [] pool = Next pool"
| "addMSPs e lg (mspConfig # rest) pool =
     (case addPeers e lg (msp_Name mspConfig) (Endorsers mspConfig) pool of
        Next pool' \<Rightarrow> addMSPs e lg rest pool'
      | Return a b \<Rightarrow> Return a b
      | Abort msg \<Rightarrow> Abort msg)"

text \<open>Lines 187 to 205.\<close>

definition initPeerPool :: "env \<Rightarrow> core \<Rightarrow> event list \<times> core flow" where
  "initPeerPool e c =
     (if peerPool c = None
      then ([Log InfoLevel ''initializing peer pool'' None],
            case config c of
              None \<Rightarrow> Return None (Some ErrEmptyConfig)
            | Some cfg \<Rightarrow>
               (case addMSPs e (logger c) (MSP cfg) (pool_New e (ctx c) (logger c)) of
                  Next pool' \<Rightarrow> Next (c\<lparr>peerPool := pool'\<rparr>)
                | Return a b \<Rightarrow> Return a b
                | Abort msg \<Rightarrow> Abort msg))
      else ([], Next c))"

text \<open>Lines 251 to 267.\<close>

fun addLocalPeers :: "env \<Rightarrow> Logger option \<Rightarrow> HostEndpoint list \<Rightarrow> PeerPool option \<Rightarrow> PeerPool option flow" where
  "addLocalPeers e lg [] pool = Next pool"
| "addLocalPeers e lg (lp # rest) pool =
     (case addPeers e lg (MspID lp)
             (map (\<lambda>lpAddresses. \<lparr>Host = Address lpAddresses, Tls = TLSSettings lpAddresses\<rparr>)
                (HostAddresses lp)) pool of
        Next pool' \<Rightarrow> addLocalPeers e lg rest pool'
      | Return a b \<Rightarrow> Return a b
      | Abort msg \<Rightarrow> Abort msg)"

text \<open>
  Lines 218 to 267, the case of the Gossip type. \<open>err\<close> is the variable \<^verbatim>\<open>err\<close> declared
  on line 145, which line 220 passes to \<^verbatim>\<open>errors.Wrap\<close>: the \<^verbatim>\<open>err\<close> of line 225 is
  declared after it. Methods called on a nil identity, provider or discoverer, and the
  dereference of a nil TLS configuration, panic.
\<close>

definition connection_missing :: string where
  "connection_missing =
     ''discovery connection config wasn'' @ [CHR 0x27] @ ''t provided. configure ''
     @ [CHR 0x27] @ ''discovery.connection'' @ [CHR 0x27]"

definition initGossip ::
  "env \<Rightarrow> error option \<Rightarrow> core \<Rightarrow> Config \<Rightarrow> TLSCertsMapper option \<Rightarrow> core flow" where
  "initGossip e err c cfg tlsMapper =
     (case Connection (Discovery cfg) of
        None \<Rightarrow> Return None (Wrap err connection_missing)
      | Some conn \<Rightarrow>
         (case identity c of
            None \<Rightarrow> Abort nil_dereference
          | Some signer \<Rightarrow>
             (case Serialize e signer of
                (clientIdentity, Some err') \<Rightarrow>
                  Return None (Wrap (Some err') ''failed serialize current identity'')
              | (clientIdentity, None) \<Rightarrow>
                 (case TlsConfigForAddress e tlsMapper (Host conn) of
                    None \<Rightarrow> Abort nil_dereference
                  | Some tls \<Rightarrow>
                     (let conn' = conn\<lparr>Tls := tls\<rparr>;
                          cfg' = cfg\<lparr>Discovery := (Discovery cfg)\<lparr>Connection := Some conn'\<rparr>\<rparr>
                      in case NewGossipDiscoveryProvider e (ctx c) conn' (logger c) signer
                                clientIdentity tlsMapper of
                           (made, Some err') \<Rightarrow>
                             Return None (Wrap (Some err') ''failed to initialize discovery provider'')
                         | (made, None) \<Rightarrow>
                            (case made of
                               None \<Rightarrow> Abort nil_dereference
                             | Some provider \<Rightarrow>
                                (case LocalPeers e provider (ctx c) of
                                   (lDiscoverer, Some err') \<Rightarrow>
                                     Return None (Wrap (Some err') ''failed to fetch local peers'')
                                 | (lDiscoverer, None) \<Rightarrow>
                                    (case lDiscoverer of
                                       None \<Rightarrow> Abort nil_dereference
                                     | Some peers \<Rightarrow>
                                        (case addLocalPeers e (logger c) peers (peerPool c) of
                                           Next pool' \<Rightarrow>
                                             Next (c\<lparr>config := Some cfg', peerPool := pool',
                                                      discoveryProvider := made\<rparr>)
                                         | Return a b \<Rightarrow> Return a b
                                         | Abort msg \<Rightarrow> Abort msg)))))))))"

text \<open>
  Lines 207 to 275. The \<^verbatim>\<open>switch\<close> compares the configured type with the Local
  constant, then with the Gossip constant, and any other string is the default case.
\<close>

definition unknownDiscoveryType :: "env \<Rightarrow> string \<Rightarrow> error" where
  "unknownDiscoveryType e t =
     Fundamental (''unknown discovery type='' @ t @ ''. available: ''
       @ LocalConfigServiceDiscoveryType e @ '', '' @ GossipServiceDiscoveryType e)"

definition initDiscovery :: "env \<Rightarrow> error option \<Rightarrow> core \<Rightarrow> event list \<times> core flow" where
  "initDiscovery e err c =
     (case config c of
        None \<Rightarrow> ([], Next c)
      | Some cfg \<Rightarrow>
         (if discoveryProvider c = None
          then ([Log InfoLevel ''initializing discovery provider'' None],
                let tlsMapper = NewTLSCertsMapper e (TLSCertsMap cfg);
                    t = discovery_Type (Discovery cfg)
                in if t = LocalConfigServiceDiscoveryType e
                   then (case NewLocalConfigProvider e (discovery_Options (Discovery cfg)) tlsMapper of
                           (provider, Some err') \<Rightarrow>
                             Return None (Wrap (Some err') ''failed to initialize discovery provider'')
                         | (provider, None) \<Rightarrow> Next (c\<lparr>discoveryProvider := provider\<rparr>))
                   else if t = GossipServiceDiscoveryType e
                   then initGossip e err c cfg tlsMapper
                   else Return None (Some (unknownDiscoveryType e t)))
          else ([], Next c)))"

text \<open>
  Lines 277 to 289. The default orderer constructed here is the first object of the
  Core, at address 0.
\<close>

definition initOrderer :: "env \<Rightarrow> core \<Rightarrow> event list \<times> core flow" where
  "initOrderer e c =
     (case config c of
        None \<Rightarrow> ([], Next c)
      | Some cfg \<Rightarrow>
         (if orderer c = None
          then (if length (Orderers cfg) > 0
                then (let built = NewGRPCConnectionFromConfigs e (ctx c) (logger c) (Orderers cfg);
                          made = NewFromGRPC e (ctx c) (fst built)
                      in if snd built \<noteq> None
                         then ([Log InfoLevel ''initializing orderer'' None,
                                GRPCConnectionFromConfigs (Orderers cfg)],
                               Return None (Wrap (snd built) ''failed to initialize orderer connection''))
                         else ([Log InfoLevel ''initializing orderer'' None,
                                GRPCConnectionFromConfigs (Orderers cfg),
                                OrdererFromGRPC (fst built)],
                               if snd made \<noteq> None
                               then Return None (Wrap (snd made) ''failed to initialize orderer'')
                               else Next (c\<lparr>orderer := newOrderer 0 made\<rparr>)))
                else ([Log InfoLevel ''initializing orderer'' None], Next c))
          else ([], Next c)))"

text \<open>Lines 291 to 294.\<close>

definition initFetcher :: "core \<Rightarrow> event list \<times> core flow" where
  "initFetcher c =
     ([], Next (if fetcher c = None then c\<lparr>fetcher := Some LocalGolangFetcher\<rparr> else c))"

text \<open>
  Lines 144 to 205: the constructor up to the stage of the discovery provider. Every
  path that goes on from here leaves the \<^verbatim>\<open>err\<close> of line 145 nil: lines 153 and 175
  return when they assign an error to it, and nothing else assigns it.
\<close>

definition beforeDiscovery ::
  "env \<Rightarrow> string \<Rightarrow> Identity option \<Rightarrow> CoreOpt list \<Rightarrow> event list \<times> core flow" where
  "beforeDiscovery e msp idn opts =
     andThen (andThen (andThen (andThen (applyOptions 0 opts (newCore msp))
       applyDefaults) (initCryptoSuite e)) (initIdentity e idn)) (initPeerPool e)"

definition finish :: "event list \<times> core flow \<Rightarrow> event list \<times> (core option \<times> error option) result" where
  "finish r =
     (case r of
        (evs, Next c) \<Rightarrow> (evs, Returned (Some c, None))
      | (evs, Return a b) \<Rightarrow> (evs, Returned (a, b))
      | (evs, Abort msg) \<Rightarrow> (evs, Panic msg))"

definition NewCore ::
  "env \<Rightarrow> string \<Rightarrow> Identity option \<Rightarrow> CoreOpt list \<Rightarrow> event list \<times> (core option \<times> error option) result" where
  "NewCore e msp idn opts =
     finish (andThen (andThen (andThen (beforeDiscovery e msp idn opts)
       (initDiscovery e None)) (initOrderer e)) initFetcher)"

text \<open>
  The state in which the methods of a Core just constructed are first called: no event
  yet, and the next free address lies above the default orderer, the one object the
  Core holds.
\<close>

definition fresh :: "core \<Rightarrow> world" where
  "fresh c =
     \<lparr>w_core = c, w_trace = [],
      w_allocs = (case orderer c of None \<Rightarrow> 0 | Some (Orderer k) \<Rightarrow> Suc k)\<rparr>"

text \<open>The default orderer of the Core, when it has one, lies below the next free address.\<close>

definition orderer_allocated :: "world \<Rightarrow> bool" where
  "orderer_allocated w =
     (case orderer (w_core w) of None \<Rightarrow> True | Some (Orderer k) \<Rightarrow> k < w_allocs w)"

section \<open>Concrete collaborators and inputs\<close>

text \<open>
  One behaviour of the other packages, used to run the model. The two discovery types
  are the strings \<^verbatim>\<open>local\<close> and \<^verbatim>\<open>gossip\<close>. A connection cannot be built to the host
  \<^verbatim>\<open>down:7050\<close>. The orderer constructor returns an orderer for any connection it is
  given, nil included. The discovery provider knows four channels and fails on any other name.
\<close>

definition env0 :: env where
  "env0 =
     \<lparr>LocalConfigServiceDiscoveryType = ''local'',
      GossipServiceDiscoveryType = ''gossip'',
      ecdsa_DefaultConfig = \<lparr>crypto_Type = ''ecdsa'', crypto_Options = 0\<rparr>,
      GetSuite = (\<lambda>t opts. if t = ''ecdsa'' then (Some (CryptoSuite 0), None) else (None, Some (Opaque 5))),
      GetSigningIdentity = (\<lambda>i suite. Some (SigningIdentity 0)),
      pool_New = (\<lambda>cx lg. Some (PeerPool 0)),
      peer_New = (\<lambda>cfg lg. (Some (Peer 0), None)),
      pool_Add = (\<lambda>pl name p strategy. (None, case pl of PeerPool k \<Rightarrow> PeerPool (Suc k))),
      NewTLSCertsMapper = (\<lambda>m. Some (TLSCertsMapper 0)),
      NewLocalConfigProvider = (\<lambda>opts m. (Some (DiscoveryProvider 0), None)),
      Serialize = (\<lambda>signer. (0, None)),
      TlsConfigForAddress = (\<lambda>m host. Some (TlsConfig 0)),
      NewGossipDiscoveryProvider = (\<lambda>cx conn lg signer bytes m. (Some (DiscoveryProvider 2), None)),
      LocalPeers = (\<lambda>p cx. (Some [], None)),
      discovery_Channel = (\<lambda>p cx name.
        if name = ''mychannel''
        then (Some \<lparr>Orderers_of =
                 [\<lparr>MspID = ''OrdererMSP'', HostAddresses =
                     [\<lparr>Address = ''orderer0:7050'', TLSSettings = TlsConfig 0\<rparr>,
                      \<lparr>Address = ''orderer1:7050'', TLSSettings = TlsConfig 3\<rparr>]\<rparr>,
                  \<lparr>MspID = ''OtherOrdererMSP'', HostAddresses =
                     [\<lparr>Address = ''orderer2:7050'', TLSSettings = TlsConfig 2\<rparr>]\<rparr>],
               ChannelName = name\<rparr>, None)
        else if name = ''hollow''
        then (Some \<lparr>Orderers_of = [\<lparr>MspID = ''OrdererMSP'', HostAddresses = []\<rparr>],
               ChannelName = name\<rparr>, None)
        else if name = ''unreachable''
        then (Some \<lparr>Orderers_of =
                 [\<lparr>MspID = ''OrdererMSP'', HostAddresses =
                     [\<lparr>Address = ''down:7050'', TLSSettings = TlsConfig 0\<rparr>]\<rparr>],
               ChannelName = name\<rparr>, None)
        else if name = ''plain''
        then (Some \<lparr>Orderers_of = [], ChannelName = name\<rparr>, None)
        else (None, Some (Opaque 4))),
      NewGRPCConnectionFromConfigs = (\<lambda>cx lg cfgs.
        if ''down:7050'' \<in> set (map Host cfgs)
        then (None, Some (Opaque 2))
        else (Some (ClientConn (length cfgs)), None)),
      NewFromGRPC = (\<lambda>cx conn. (True, None))\<rparr>"

text \<open>A Core with a discovery provider and the default orderer \<open>Orderer 0\<close>.\<close>

definition core0 :: core where
  "core0 =
     \<lparr>ctx = Some Background, logger = Some DefaultLogger, config = None, mspId = ''Org1MSP'',
      identity = Some (SigningIdentity 0), peerPool = Some (PeerPool 0),
      orderer = Some (Orderer 0), discoveryProvider = Some (DiscoveryProvider 0),
      channels = Map.empty, chaincodes = Map.empty, cs = Some (CryptoSuite 0),
      fetcher = Some LocalGolangFetcher, fabricV2 = False\<rparr>"

text \<open>
  A configuration with an empty crypto type, one organization with one endorser, the
  Local discovery type and one orderer; the same with no discovery type; the same with
  the Gossip type and no bootstrap connection.
\<close>

definition config0 :: Config where
  "config0 =
     \<lparr>Crypto = \<lparr>crypto_Type = [], crypto_Options = 0\<rparr>,
      MSP = [\<lparr>msp_Name = ''Org1MSP'', Endorsers = [\<lparr>Host = ''peer0:7051'', Tls = TlsConfig 0\<rparr>]\<rparr>],
      TLSCertsMap = 0,
      Discovery = \<lparr>discovery_Type = ''local'', discovery_Options = 0, Connection = None\<rparr>,
      Orderers = [\<lparr>Host = ''orderer0:7050'', Tls = TlsConfig 0\<rparr>]\<rparr>"

definition config_untyped :: Config where
  "config_untyped =
     config0\<lparr>Discovery := \<lparr>discovery_Type = [], discovery_Options = 0, Connection = None\<rparr>\<rparr>"

definition config_gossip :: Config where
  "config_gossip =
     config0\<lparr>Discovery := \<lparr>discovery_Type = ''gossip'', discovery_Options = 0, Connection = None\<rparr>\<rparr>"

text \<open>Options: each sets one field, the last one fails.\<close>

definition setConfig :: "Config \<Rightarrow> CoreOpt" where
  "setConfig cfg c = (None, c\<lparr>config := Some cfg\<rparr>)"

definition setCryptoSuite :: CoreOpt where
  "setCryptoSuite c = (None, c\<lparr>cs := Some (CryptoSuite 0)\<rparr>)"

definition setPeerPool :: CoreOpt where
  "setPeerPool c = (None, c\<lparr>peerPool := Some (PeerPool 0)\<rparr>)"

definition setOrderer :: CoreOpt where
  "setOrderer c = (None, c\<lparr>orderer := Some (Orderer 0)\<rparr>)"

definition refuse :: CoreOpt where
  "refuse c = (Some (Opaque 9), c)"

text \<open>
  The Core that \<open>NewCore\<close> has built from the option \<open>setConfig cfg\<close> when it reaches the
  discovery stage; the Core it returns for \<open>config0\<close>; the Core it returns for the three
  options that set the crypto suite, the peer pool and the orderer, with no
  configuration.
\<close>

definition configured :: "Config \<Rightarrow> core" where
  "configured cfg =
     \<lparr>ctx = Some Background, logger = Some DefaultLogger,
      config = Some (cfg\<lparr>Crypto := \<lparr>crypto_Type = ''ecdsa'', crypto_Options = 0\<rparr>\<rparr>),
      mspId = ''Org1MSP'', identity = Some (SigningIdentity 0),
      peerPool = Some (PeerPool (Suc 0)), orderer = None, discoveryProvider = None,
      channels = Map.empty, chaincodes = Map.empty, cs = Some (CryptoSuite 0),
      fetcher = None, fabricV2 = False\<rparr>"

definition core_constructed :: core where
  "core_constructed =
     \<lparr>ctx = Some Background, logger = Some DefaultLogger,
      config = Some (config0\<lparr>Crypto := \<lparr>crypto_Type = ''ecdsa'', crypto_Options = 0\<rparr>\<rparr>),
      mspId = ''Org1MSP'', identity = Some (SigningIdentity 0),
      peerPool = Some (PeerPool (Suc 0)), orderer = Some (Orderer 0),
      discoveryProvider = Some (DiscoveryProvider 0),
      channels = Map.empty, chaincodes = Map.empty, cs = Some (CryptoSuite 0),
      fetcher = Some LocalGolangFetcher, fabricV2 = False\<rparr>"

definition core_bare :: core where
  "core_bare =
     \<lparr>ctx = Some Background, logger = Some DefaultLogger, config = None, mspId = ''Org1MSP'',
      identity = Some (SigningIdentity 0), peerPool = Some (PeerPool 0),
      orderer = Some (Orderer 0), discoveryProvider = None,
      channels = Map.empty, chaincodes = Map.empty, cs = Some (CryptoSuite 0),
      fetcher = Some LocalGolangFetcher, fabricV2 = False\<rparr>"

section \<open>Properties of \<^verbatim>\<open>Channel\<close>\<close>

subsection \<open>The descriptor list\<close>

lemma appendHostAddresses_map:
  "appendHostAddresses acc as = acc @ map (\<lambda>a. \<lparr>Host = Address a, Tls = TLSSettings a\<rparr>) as"
  by (induction as arbitrary: acc) simp_all

lemma appendOrderers_concat:
  "appendOrderers acc os =
     acc @ concat (map (\<lambda>ord. map (\<lambda>a. \<lparr>Host = Address a, Tls = TLSSettings a\<rparr>) (HostAddresses ord)) os)"
  by (induction os arbitrary: acc) (simp_all add: appendHostAddresses_map)

subsection \<open>The paths through the method\<close>

lemma Channel_cached:
  "logger (w_core w) = Some lg \<Longrightarrow> channels (w_core w) n = Some ch \<Longrightarrow> Channel e w n = (Returned ch, w)"
  by (simp add: Channel_def)

lemma Channel_resolved:
  "logger (w_core w) = Some lg \<Longrightarrow> channels (w_core w) n = None \<Longrightarrow>
   discoverOrderer e (w_core w) (w_allocs w) n = (evs, Returned found) \<Longrightarrow>
   addr = (case found of None \<Rightarrow> w_allocs w | Some x \<Rightarrow> Suc (w_allocs w)) \<Longrightarrow>
   Channel e w n =
     (Returned \<lparr>ch_addr = addr, ch_mspId = mspId (w_core w), ch_name = n,
                ch_peerPool = peerPool (w_core w),
                ch_orderer = (case found of None \<Rightarrow> orderer (w_core w) | Some x \<Rightarrow> Some x),
                ch_discoveryProvider = discoveryProvider (w_core w),
                ch_identity = identity (w_core w), ch_fabricV2 = fabricV2 (w_core w),
                ch_logger = logger (w_core w)\<rparr>,
      \<lparr>w_core = (w_core w)\<lparr>channels := (channels (w_core w))(n \<mapsto>
                \<lparr>ch_addr = addr, ch_mspId = mspId (w_core w), ch_name = n,
                ch_peerPool = peerPool (w_core w),
                ch_orderer = (case found of None \<Rightarrow> orderer (w_core w) | Some x \<Rightarrow> Some x),
                ch_discoveryProvider = discoveryProvider (w_core w),
                ch_identity = identity (w_core w), ch_fabricV2 = fabricV2 (w_core w),
                ch_logger = logger (w_core w)\<rparr>)\<rparr>,
       w_trace = w_trace w @ evs @ [ChannelConstructed n addr],
       w_allocs = Suc addr\<rparr>)"
  by (simp add: Channel_def Let_def)

lemma Channel_without_provider:
  "logger (w_core w) \<noteq> None \<Longrightarrow> channels (w_core w) n = None \<Longrightarrow>
   discoveryProvider (w_core w) = None \<Longrightarrow>
   Channel e w n = (Panic nil_dereference, w\<lparr>w_trace := w_trace w @ [Log DebugLevel initiating_new None]\<rparr>)"
  by (auto simp: Channel_def discoverOrderer_def Let_def)

lemma discoverOrderer_error:
  "discoveryProvider c = Some p \<Longrightarrow> discovery_Channel e p (ctx c) n = (d, Some err) \<Longrightarrow>
   discoverOrderer e c addr n =
     ([Log DebugLevel initiating_new None, DiscoveryChannel n,
       Log ErrorLevel failed_discovery (Some err)],
      Returned None)"
  by (simp add: discoverOrderer_def)

lemma discoverOrderer_empty:
  "discoveryProvider c = Some p \<Longrightarrow> discovery_Channel e p (ctx c) n = (Some d, None) \<Longrightarrow>
   Orderers_of d = [] \<Longrightarrow>
   discoverOrderer e c addr n =
     ([Log DebugLevel initiating_new None, DiscoveryChannel n], Returned None)"
  by (simp add: discoverOrderer_def)

lemma discoverOrderer_custom:
  "discoveryProvider c = Some p \<Longrightarrow> discovery_Channel e p (ctx c) n = (Some d, None) \<Longrightarrow>
   Orderers_of d \<noteq> [] \<Longrightarrow>
   discoverOrderer e c addr n =
     ([Log DebugLevel initiating_new None, DiscoveryChannel n]
        @ fst (customOrderer e c addr (Orderers_of d)),
      Returned (snd (customOrderer e c addr (Orderers_of d))))"
  by (simp add: discoverOrderer_def split: prod.splits)

lemma customOrderer_eq:
  "customOrderer e c addr os =
     ([GRPCConnectionFromConfigs (appendOrderers [] os)]
      @ (if snd (NewGRPCConnectionFromConfigs e (ctx c) (logger c) (appendOrderers [] os)) \<noteq> None
         then [Log ErrorLevel failed_connection
                 (snd (NewGRPCConnectionFromConfigs e (ctx c) (logger c) (appendOrderers [] os)))]
         else [])
      @ [OrdererFromGRPC (fst (NewGRPCConnectionFromConfigs e (ctx c) (logger c) (appendOrderers [] os)))]
      @ (if snd (NewFromGRPC e (ctx c)
                   (fst (NewGRPCConnectionFromConfigs e (ctx c) (logger c) (appendOrderers [] os)))) \<noteq> None
         then [Log ErrorLevel failed_orderer None]
         else []),
      newOrderer addr (NewFromGRPC e (ctx c)
             (fst (NewGRPCConnectionFromConfigs e (ctx c) (logger c) (appendOrderers [] os)))))"
  by (simp add: customOrderer_def Let_def)

subsection \<open>The cache over a sequence of calls\<close>

lemma discoverOrderer_query_other:
  "m \<noteq> n \<Longrightarrow> count_list (fst (discoverOrderer e c addr m)) (DiscoveryChannel n) = 0"
  by (simp add: discoverOrderer_def customOrderer_def Let_def split: option.splits prod.splits)

lemma discoverOrderer_query_once:
  "count_list (fst (discoverOrderer e c addr n)) (DiscoveryChannel n) \<le> 1"
  by (simp add: discoverOrderer_def customOrderer_def Let_def split: option.splits prod.splits)

lemma Channel_keeps_entry:
  "channels (w_core w) m = Some x \<Longrightarrow> channels (w_core (snd (Channel e w n))) m = Some x"
  by (auto simp: Channel_def Let_def split: option.splits prod.splits result.splits)

lemma Chaincode_keeps_entry:
  "channels (w_core (snd (Chaincode w n))) = channels (w_core w)"
  by (simp add: Chaincode_def Let_def split: option.splits)

lemma perform_keeps_entry:
  "channels (w_core w) m = Some x \<Longrightarrow> channels (w_core (perform e w k)) m = Some x"
  by (cases k) (simp_all add: Channel_keeps_entry Chaincode_keeps_entry)

lemma run_keeps_entry:
  "channels (w_core w) m = Some x \<Longrightarrow> channels (w_core (run e w ks)) m = Some x"
  by (induction ks arbitrary: w) (simp_all add: perform_keeps_entry)

lemma Channel_trace:
  "w_trace (snd (Channel e w m)) =
     w_trace w @ (case logger (w_core w) of None \<Rightarrow> []
       | Some lg \<Rightarrow> (case channels (w_core w) m of Some ch \<Rightarrow> []
          | None \<Rightarrow> (case discoverOrderer e (w_core w) (w_allocs w) m of
               (evs, Panic msg) \<Rightarrow> evs
             | (evs, Returned found) \<Rightarrow>
                 evs @ [ChannelConstructed m
                          (case found of None \<Rightarrow> w_allocs w | Some x \<Rightarrow> Suc (w_allocs w))])))"
  by (simp add: Channel_def Let_def split: option.splits prod.splits result.splits)

lemma Channel_queries_cached:
  "channels (w_core w) n = Some x \<Longrightarrow>
   count_list (w_trace (snd (Channel e w m))) (DiscoveryChannel n) =
   count_list (w_trace w) (DiscoveryChannel n)"
proof (cases "m = n")
  case True
  assume "channels (w_core w) n = Some x"
  with True show ?thesis by (simp add: Channel_trace split: option.splits)
next
  case False
  from discoverOrderer_query_other [OF False, of e "w_core w" "w_allocs w"]
  show ?thesis
    by (auto simp: Channel_trace split: option.splits prod.splits result.splits)
qed

lemma Channel_queries_once:
  "count_list (w_trace (snd (Channel e w n))) (DiscoveryChannel n) \<le>
   count_list (w_trace w) (DiscoveryChannel n) + 1"
  using discoverOrderer_query_once [of e "w_core w" "w_allocs w" n]
  by (auto simp: Channel_trace split: option.splits prod.splits result.splits)

lemma Chaincode_queries:
  "count_list (w_trace (snd (Chaincode w m))) (DiscoveryChannel n) =
   count_list (w_trace w) (DiscoveryChannel n)"
  by (simp add: Chaincode_def Let_def split: option.splits)

lemma perform_queries_cached:
  "channels (w_core w) n = Some x \<Longrightarrow>
   count_list (w_trace (perform e w k)) (DiscoveryChannel n) =
   count_list (w_trace w) (DiscoveryChannel n)"
  by (cases k) (simp_all add: Channel_queries_cached Chaincode_queries)

lemma run_queries_cached:
  "channels (w_core w) n = Some x \<Longrightarrow>
   count_list (w_trace (run e w ks)) (DiscoveryChannel n) =
   count_list (w_trace w) (DiscoveryChannel n)"
proof (induction ks arbitrary: w)
  case Nil
  show ?case by simp
next
  case (Cons k ks)
  from Cons.prems have "channels (w_core (perform e w k)) n = Some x"
    by (rule perform_keeps_entry)
  from Cons.IH [OF this] perform_queries_cached [OF Cons.prems, of e k]
  show ?case by simp
qed

lemma Channel_logger:
  "logger (w_core (snd (Channel e w n))) = logger (w_core w)"
  by (simp add: Channel_def Let_def split: option.splits prod.splits result.splits)

lemma Chaincode_logger:
  "logger (w_core (snd (Chaincode w n))) = logger (w_core w)"
  by (simp add: Chaincode_def Let_def split: option.splits)

lemma run_logger:
  "logger (w_core (run e w ks)) = logger (w_core w)"
proof (induction ks arbitrary: w)
  case Nil
  show ?case by simp
next
  case (Cons k ks)
  show ?case by (cases k) (simp_all add: Cons.IH Channel_logger Chaincode_logger)
qed

lemma Channel_returned_cached:
  "fst (Channel e w n) = Returned ch \<Longrightarrow>
   logger (w_core w) \<noteq> None \<and> channels (w_core (snd (Channel e w n))) n = Some ch"
  by (auto simp: Channel_def Let_def split: option.splits prod.splits result.splits)

subsection \<open>Addresses\<close>

lemma fresh_allocated: "orderer_allocated (fresh c)"
  by (simp add: orderer_allocated_def fresh_def split: option.splits Orderer.splits)

lemma Channel_allocated:
  "orderer_allocated w \<Longrightarrow> orderer_allocated (snd (Channel e w n))"
  by (auto simp: orderer_allocated_def Channel_def Let_def
      split: option.splits prod.splits result.splits Orderer.splits)

lemma Chaincode_allocated:
  "orderer_allocated w \<Longrightarrow> orderer_allocated (snd (Chaincode w n))"
  by (auto simp: orderer_allocated_def Chaincode_def Let_def split: option.splits Orderer.splits)

lemma perform_allocated: "orderer_allocated w \<Longrightarrow> orderer_allocated (perform e w k)"
  by (cases k) (simp_all add: Channel_allocated Chaincode_allocated)

lemma run_allocated: "orderer_allocated w \<Longrightarrow> orderer_allocated (run e w ks)"
  by (induction ks arbitrary: w) (simp_all add: perform_allocated)

lemma allocated_distinct:
  "orderer_allocated w \<Longrightarrow> orderer (w_core w) \<noteq> Some (Orderer (w_allocs w))"
  by (auto simp: orderer_allocated_def)

section \<open>Properties of \<^verbatim>\<open>NewCore\<close>\<close>

subsection \<open>The loop over the options\<close>

lemma applyOptions_all:
  "\<forall>k < length opts. fst ((opts ! k) (foldl (\<lambda>c opt. snd (opt c)) c (take k opts))) = None \<Longrightarrow>
   applyOptions i opts c =
     (map OptionApplied [i ..< i + length opts], Next (foldl (\<lambda>c opt. snd (opt c)) c opts))"
proof (induction opts arbitrary: i c)
  case Nil
  show ?case by simp
next
  case (Cons opt opts)
  from Cons.prems have first: "fst (opt c) = None" by auto
  have rest: "\<forall>k < length opts.
      fst ((opts ! k) (foldl (\<lambda>c opt. snd (opt c)) (snd (opt c)) (take k opts))) = None"
  proof (intro allI impI)
    fix k assume "k < length opts"
    then have "Suc k < length (opt # opts)" by simp
    with Cons.prems
    have "fst (((opt # opts) ! Suc k) (foldl (\<lambda>c opt. snd (opt c)) c (take (Suc k) (opt # opts)))) = None"
      by blast
    then show "fst ((opts ! k) (foldl (\<lambda>c opt. snd (opt c)) (snd (opt c)) (take k opts))) = None"
      by simp
  qed
  have "[i ..< i + length (opt # opts)] = i # [Suc i ..< Suc i + length opts]"
    by (simp add: upt_rec)
  with Cons.IH [OF rest, of "Suc i"] first show ?case
    by (cases "opt c") simp
qed

lemma applyOptions_append:
  "applyOptions i pre c = (evs, Next c') \<Longrightarrow>
   applyOptions i (pre @ post) c =
     (case applyOptions (i + length pre) post c' of (evs', r) \<Rightarrow> (evs @ evs', r))"
proof (induction pre arbitrary: i c evs)
  case Nil
  then show ?case by simp
next
  case (Cons opt pre)
  then show ?case
    by (cases "opt c") (auto split: option.splits prod.splits)
qed

lemma applyOptions_failure:
  assumes "\<forall>k < length pre. fst ((pre ! k) (foldl (\<lambda>c opt. snd (opt c)) c (take k pre))) = None"
    and "fst (opt (foldl (\<lambda>c opt. snd (opt c)) c pre)) = Some err"
  shows "applyOptions i (pre @ opt # post) c =
     (map OptionApplied [i ..< Suc (i + length pre)],
      Return None (Some (WithMessage err ''failed to apply option'')))"
proof -
  from assms(2) have "applyOptions (i + length pre) (opt # post) (foldl (\<lambda>c opt. snd (opt c)) c pre) =
      ([OptionApplied (i + length pre)], Return None (Some (WithMessage err ''failed to apply option'')))"
    by (cases "opt (foldl (\<lambda>c opt. snd (opt c)) c pre)") simp
  with applyOptions_append [OF applyOptions_all [OF assms(1), of i], of "opt # post"]
  show ?thesis by simp
qed

lemma NewCore_options_returned:
  "applyOptions 0 opts (newCore msp) = (evs, Return a b) \<Longrightarrow>
   NewCore e msp idn opts = (evs, Returned (a, b))"
  by (simp add: NewCore_def beforeDiscovery_def andThen_def finish_def)

lemma NewCore_after_options:
  "applyOptions 0 opts (newCore msp) = (pre, Next c) \<Longrightarrow>
   NewCore e msp idn opts =
     (case finish
             (andThen (andThen (andThen (andThen (andThen (andThen
                (applyDefaults c)
                (initCryptoSuite e)) (initIdentity e idn)) (initPeerPool e))
                (initDiscovery e None)) (initOrderer e)) initFetcher) of
        (evs, r) \<Rightarrow> (pre @ evs, r))"
  by (simp add: NewCore_def beforeDiscovery_def andThen_def finish_def
      split: prod.splits flow.splits)

subsection \<open>What each stage returns and what it keeps\<close>

lemma andThen_Next:
  "andThen r f = (evs, Next c') \<Longrightarrow>
   \<exists>evs1 c1 evs2. r = (evs1, Next c1) \<and> f c1 = (evs2, Next c') \<and> evs = evs1 @ evs2"
  by (auto simp: andThen_def split: prod.splits flow.splits)

lemma andThen_Return:
  "andThen r f = (evs, Return a b) \<Longrightarrow>
   (\<exists>evs1. r = (evs1, Return a b)) \<or> (\<exists>evs1 c1 evs2. r = (evs1, Next c1) \<and> f c1 = (evs2, Return a b))"
  by (auto simp: andThen_def split: prod.splits flow.splits)

lemma finish_Returned:
  "finish r = (evs, Returned (a, b)) \<Longrightarrow>
   (\<exists>c. r = (evs, Next c) \<and> a = Some c \<and> b = None) \<or> r = (evs, Return a b)"
  by (auto simp: finish_def split: prod.splits flow.splits)

lemma applyOptions_Return: "applyOptions i opts c = (evs, Return a b) \<Longrightarrow> a = None"
  by (induction opts arbitrary: i c evs) (auto split: prod.splits option.splits)

lemma addPeers_Return: "addPeers e lg name cfgs pool = Return a b \<Longrightarrow> a = None"
  by (induction cfgs arbitrary: pool) (auto split: prod.splits option.splits)

lemma addMSPs_Return: "addMSPs e lg msps pool = Return a b \<Longrightarrow> a = None"
  by (induction msps arbitrary: pool) (auto split: flow.splits dest: addPeers_Return)

lemma addLocalPeers_Return: "addLocalPeers e lg peers pool = Return a b \<Longrightarrow> a = None"
  by (induction peers arbitrary: pool) (auto split: flow.splits dest: addPeers_Return)

lemma applyDefaults_Next:
  "applyDefaults c = (evs, r) \<Longrightarrow> \<exists>c'. r = Next c' \<and> cs c' = cs c \<and> config c' = config c
     \<and> discoveryProvider c' = discoveryProvider c \<and> logger c' \<noteq> None"
  by (auto simp: applyDefaults_def Let_def)

lemma initCryptoSuite_Return: "initCryptoSuite e c = (evs, Return a b) \<Longrightarrow> a = None"
  by (auto simp: initCryptoSuite_def Let_def split: if_splits option.splits)

lemma initIdentity_Return: "initIdentity e idn c = (evs, Return a b) \<Longrightarrow> a = None"
  by (auto simp: initIdentity_def split: option.splits)

lemma initIdentity_Next:
  "initIdentity e idn c = (evs, Next c') \<Longrightarrow> cs c' = cs c \<and> config c' = config c
     \<and> discoveryProvider c' = discoveryProvider c \<and> logger c' = logger c"
  by (auto simp: initIdentity_def split: option.splits)

lemma initPeerPool_Return: "initPeerPool e c = (evs, Return a b) \<Longrightarrow> a = None"
  by (auto simp: initPeerPool_def split: if_splits option.splits flow.splits dest: addMSPs_Return)

lemma initPeerPool_Next:
  "initPeerPool e c = (evs, Next c') \<Longrightarrow> cs c' = cs c \<and> config c' = config c
     \<and> discoveryProvider c' = discoveryProvider c \<and> logger c' = logger c"
  by (auto simp: initPeerPool_def split: if_splits option.splits flow.splits)

lemma initGossip_Return: "initGossip e None c cfg m = Return a b \<Longrightarrow> a = None"
  by (auto simp: initGossip_def Let_def split: option.splits prod.splits flow.splits
      dest: addLocalPeers_Return)

lemma initGossip_Next:
  "initGossip e err c cfg m = Next c' \<Longrightarrow> config c = Some cfg \<Longrightarrow>
   cs c' = cs c \<and> map_option Crypto (config c') = map_option Crypto (config c) \<and> logger c' = logger c"
  by (auto simp: initGossip_def Let_def split: option.splits prod.splits flow.splits)

lemma initDiscovery_Return: "initDiscovery e None c = (evs, Return a b) \<Longrightarrow> a = None"
  by (auto simp: initDiscovery_def Let_def split: option.splits prod.splits if_splits
      dest: initGossip_Return)

lemma initDiscovery_Next:
  "initDiscovery e err c = (evs, Next c') \<Longrightarrow>
   cs c' = cs c \<and> map_option Crypto (config c') = map_option Crypto (config c) \<and> logger c' = logger c"
  by (auto simp: initDiscovery_def Let_def split: option.splits prod.splits if_splits
      dest: initGossip_Next)

lemma initOrderer_Return: "initOrderer e c = (evs, Return a b) \<Longrightarrow> a = None"
  by (auto simp: initOrderer_def Let_def split: option.splits if_splits)

lemma initOrderer_Next:
  "initOrderer e c = (evs, Next c') \<Longrightarrow> cs c' = cs c \<and> config c' = config c
     \<and> discoveryProvider c' = discoveryProvider c \<and> logger c' = logger c"
  by (auto simp: initOrderer_def Let_def split: option.splits if_splits)

lemma initFetcher_Next:
  "initFetcher c = (evs, r) \<Longrightarrow> \<exists>c'. r = Next c' \<and> cs c' = cs c \<and> config c' = config c
     \<and> discoveryProvider c' = discoveryProvider c \<and> logger c' = logger c"
  by (auto simp: initFetcher_def)

lemma initCryptoSuite_default:
  assumes "cs c = None" and "config c = Some cfg" and "crypto_Type (Crypto cfg) = []"
  shows "initCryptoSuite e c =
     ([Log InfoLevel ''initializing crypto suite'' None],
      if snd (GetSuite e (crypto_Type (ecdsa_DefaultConfig e)) (crypto_Options (ecdsa_DefaultConfig e))) \<noteq> None
      then Return None
             (Wrap (snd (GetSuite e (crypto_Type (ecdsa_DefaultConfig e))
                      (crypto_Options (ecdsa_DefaultConfig e))))
                ''failed to initialize crypto suite'')
      else Next (c\<lparr>config := Some (cfg\<lparr>Crypto := ecdsa_DefaultConfig e\<rparr>),
                   cs := fst (GetSuite e (crypto_Type (ecdsa_DefaultConfig e))
                            (crypto_Options (ecdsa_DefaultConfig e)))\<rparr>))"
  using assms by (simp add: initCryptoSuite_def Let_def)

lemma beforeDiscovery_Return: "beforeDiscovery e msp idn opts = (evs, Return a b) \<Longrightarrow> a = None"
  unfolding beforeDiscovery_def
  by (auto dest!: andThen_Return dest: applyOptions_Return initCryptoSuite_Return
      initIdentity_Return initPeerPool_Return applyDefaults_Next)

lemma NewCore_Some:
  assumes "NewCore e msp idn opts = (evs, Returned (Some c, b))"
  shows "\<exists>evs0 c0 evs1 c1 evs2 c2 evs3 c3 evs4 c4 evs5 c5 evs6 c6 evs7.
      applyOptions 0 opts (newCore msp) = (evs0, Next c0) \<and>
      applyDefaults c0 = (evs1, Next c1) \<and>
      initCryptoSuite e c1 = (evs2, Next c2) \<and>
      initIdentity e idn c2 = (evs3, Next c3) \<and>
      initPeerPool e c3 = (evs4, Next c4) \<and>
      initDiscovery e None c4 = (evs5, Next c5) \<and>
      initOrderer e c5 = (evs6, Next c6) \<and>
      initFetcher c6 = (evs7, Next c) \<and> b = None"
proof -
  let ?r = "andThen (andThen (andThen (beforeDiscovery e msp idn opts)
       (initDiscovery e None)) (initOrderer e)) initFetcher"
  from assms have fin: "finish ?r = (evs, Returned (Some c, b))" by (simp add: NewCore_def)
  have "?r \<noteq> (evs, Return (Some c) b)"
    by (auto dest!: andThen_Return dest: beforeDiscovery_Return initDiscovery_Return
        initOrderer_Return initFetcher_Next)
  with finish_Returned [OF fin] have "?r = (evs, Next c)" and "b = None" by auto
  then show ?thesis
    unfolding beforeDiscovery_def by (fastforce dest!: andThen_Next)
qed

lemma initCryptoSuite_logger:
  "initCryptoSuite e c = (evs, Next c') \<Longrightarrow> logger c' = logger c"
  by (auto simp: initCryptoSuite_def Let_def split: if_splits option.splits)

text \<open>
  A Core that the constructor returns has a logger (lines 162 to 164), so line 86 of
  \<^verbatim>\<open>Channel\<close> does not panic on it.
\<close>

lemma NewCore_logger:
  assumes "NewCore e msp idn opts = (evs, Returned (Some c, b))"
  shows "logger c \<noteq> None"
proof -
  from NewCore_Some [OF assms]
  obtain evs0 c0 evs1 c1 evs2 c2 evs3 c3 evs4 c4 evs5 c5 evs6 c6 evs7 where
    s: "applyDefaults c0 = (evs1, Next c1)" "initCryptoSuite e c1 = (evs2, Next c2)"
       "initIdentity e idn c2 = (evs3, Next c3)" "initPeerPool e c3 = (evs4, Next c4)"
       "initDiscovery e None c4 = (evs5, Next c5)" "initOrderer e c5 = (evs6, Next c6)"
       "initFetcher c6 = (evs7, Next c)"
    by auto
  from applyDefaults_Next [OF s(1)] initCryptoSuite_logger [OF s(2)] initIdentity_Next [OF s(3)]
    initPeerPool_Next [OF s(4)] initDiscovery_Next [OF s(5)] initOrderer_Next [OF s(6)]
    initFetcher_Next [OF s(7)]
  show ?thesis by auto
qed

lemma NewCore_at_discovery:
  "beforeDiscovery e msp idn opts = (evs, Next c) \<Longrightarrow> initDiscovery e None c = (evs', Return a b) \<Longrightarrow>
   NewCore e msp idn opts = (evs @ evs', Returned (a, b))"
  by (simp add: NewCore_def andThen_def finish_def)

lemma NewCore_gossip_without_connection:
  assumes "beforeDiscovery e msp idn opts = (evs, Next c)"
    and "config c = Some cfg" and "discoveryProvider c = None"
    and "discovery_Type (Discovery cfg) = GossipServiceDiscoveryType e"
    and "GossipServiceDiscoveryType e \<noteq> LocalConfigServiceDiscoveryType e"
    and "Connection (Discovery cfg) = None"
  shows "NewCore e msp idn opts =
     (evs @ [Log InfoLevel ''initializing discovery provider'' None], Returned (None, None))"
proof -
  from assms(2-6) have "initDiscovery e None c =
      ([Log InfoLevel ''initializing discovery provider'' None], Return None None)"
    by (auto simp: initDiscovery_def initGossip_def Let_def)
  from NewCore_at_discovery [OF assms(1) this] show ?thesis .
qed

section \<open>The model run on the concrete inputs\<close>

lemma core0_simps [simp]:
  "logger (w_core (fresh core0)) = Some DefaultLogger"
  "channels (w_core (fresh core0)) n = None"
  "discoveryProvider (w_core (fresh core0)) = Some (DiscoveryProvider 0)"
  "ctx (w_core (fresh core0)) = Some Background"
  "orderer (w_core (fresh core0)) = Some (Orderer 0)"
  "w_trace (fresh core0) = []"
  "w_allocs (fresh core0) = Suc 0"
  by (simp_all add: fresh_def core0_def)

lemma env0_simps:
  "discovery_Channel env0 p cx ''absent'' = (None, Some (Opaque 4))"
  "discovery_Channel env0 p cx ''plain'' = (Some \<lparr>Orderers_of = [], ChannelName = ''plain''\<rparr>, None)"
  "discovery_Channel env0 p cx ''mychannel'' =
     (Some \<lparr>Orderers_of =
                 [\<lparr>MspID = ''OrdererMSP'', HostAddresses =
                     [\<lparr>Address = ''orderer0:7050'', TLSSettings = TlsConfig 0\<rparr>,
                      \<lparr>Address = ''orderer1:7050'', TLSSettings = TlsConfig 3\<rparr>]\<rparr>,
                  \<lparr>MspID = ''OtherOrdererMSP'', HostAddresses =
                     [\<lparr>Address = ''orderer2:7050'', TLSSettings = TlsConfig 2\<rparr>]\<rparr>],
               ChannelName = ''mychannel''\<rparr>, None)"
  "discovery_Channel env0 p cx ''hollow'' =
     (Some \<lparr>Orderers_of = [\<lparr>MspID = ''OrdererMSP'', HostAddresses = []\<rparr>],
               ChannelName = ''hollow''\<rparr>, None)"
  "discovery_Channel env0 p cx ''unreachable'' =
     (Some \<lparr>Orderers_of =
                 [\<lparr>MspID = ''OrdererMSP'', HostAddresses =
                     [\<lparr>Address = ''down:7050'', TLSSettings = TlsConfig 0\<rparr>]\<rparr>],
               ChannelName = ''unreachable''\<rparr>, None)"
  "NewGRPCConnectionFromConfigs env0 cx lg [] = (Some (ClientConn 0), None)"
  "NewGRPCConnectionFromConfigs env0 cx lg
     [\<lparr>Host = ''orderer0:7050'', Tls = TlsConfig 0\<rparr>, \<lparr>Host = ''orderer1:7050'', Tls = TlsConfig 3\<rparr>,
      \<lparr>Host = ''orderer2:7050'', Tls = TlsConfig 2\<rparr>] = (Some (ClientConn 3), None)"
  "NewGRPCConnectionFromConfigs env0 cx lg [\<lparr>Host = ''down:7050'', Tls = TlsConfig 0\<rparr>] =
     (None, Some (Opaque 2))"
  "NewFromGRPC env0 cx conn = (True, None)"
  by (simp_all add: env0_def)

lemma env0_construction:
  "ecdsa_DefaultConfig env0 = \<lparr>crypto_Type = ''ecdsa'', crypto_Options = 0\<rparr>"
  "GetSuite env0 ''ecdsa'' k = (Some (CryptoSuite 0), None)"
  "GetSigningIdentity env0 i suite = Some (SigningIdentity 0)"
  "pool_New env0 cx lg = Some (PeerPool 0)"
  "peer_New env0 cfg lg = (Some (Peer 0), None)"
  "pool_Add env0 (PeerPool k) name p strategy = (None, PeerPool (Suc k))"
  "NewTLSCertsMapper env0 m = Some (TLSCertsMapper 0)"
  "NewLocalConfigProvider env0 k mapper = (Some (DiscoveryProvider 0), None)"
  "LocalConfigServiceDiscoveryType env0 = ''local''"
  "GossipServiceDiscoveryType env0 = ''gossip''"
  by (simp_all add: env0_def)

lemma config_simps:
  "MSP config_untyped = MSP config0" "crypto_Type (Crypto config_untyped) = []"
  "MSP config_gossip = MSP config0" "crypto_Type (Crypto config_gossip) = []"
  "crypto_Type (Crypto config0) = []"
  "discovery_Type (Discovery config_untyped) = []"
  "discovery_Type (Discovery config_gossip) = ''gossip''"
  "Connection (Discovery config_gossip) = None"
  by (simp_all add: config_untyped_def config_gossip_def config0_def)

lemma configured_simps:
  "config (configured cfg) = Some (cfg\<lparr>Crypto := \<lparr>crypto_Type = ''ecdsa'', crypto_Options = 0\<rparr>\<rparr>)"
  "discoveryProvider (configured cfg) = None"
  by (simp_all add: configured_def)

lemma beforeDiscovery_env0:
  assumes "MSP cfg = MSP config0" and "crypto_Type (Crypto cfg) = []"
  shows "beforeDiscovery env0 ''Org1MSP'' (Some (Identity 0)) [setConfig cfg] =
     ([OptionApplied 0, Log InfoLevel ''initializing crypto suite'' None,
       Log InfoLevel ''initializing peer pool'' None],
      Next (configured cfg))"
  using assms
  by (simp add: beforeDiscovery_def andThen_def setConfig_def newCore_def applyDefaults_def
      initCryptoSuite_def initIdentity_def initPeerPool_def Let_def env0_construction
      config0_def configured_def)

lemma NewCore_config0:
  "NewCore env0 ''Org1MSP'' (Some (Identity 0)) [setConfig config0] =
     ([OptionApplied 0, Log InfoLevel ''initializing crypto suite'' None,
       Log InfoLevel ''initializing peer pool'' None,
       Log InfoLevel ''initializing discovery provider'' None,
       Log InfoLevel ''initializing orderer'' None,
       GRPCConnectionFromConfigs [\<lparr>Host = ''orderer0:7050'', Tls = TlsConfig 0\<rparr>],
       OrdererFromGRPC (Some (ClientConn (Suc 0)))],
      Returned (Some core_constructed, None))"
proof -
  have before: "beforeDiscovery env0 ''Org1MSP'' (Some (Identity 0)) [setConfig config0] =
     ([OptionApplied 0, Log InfoLevel ''initializing crypto suite'' None,
       Log InfoLevel ''initializing peer pool'' None],
      Next (configured config0))"
    by (rule beforeDiscovery_env0) (simp_all add: config_simps)
  show ?thesis
    unfolding NewCore_def before
    by (simp add: andThen_def finish_def initDiscovery_def initOrderer_def
        initFetcher_def Let_def configured_def config0_def env0_def core_constructed_def
        newOrderer_def)
qed

lemma NewCore_bare:
  "NewCore env0 ''Org1MSP'' (Some (Identity 0)) [setCryptoSuite, setPeerPool, setOrderer] =
     ([OptionApplied 0, OptionApplied (Suc 0), OptionApplied (Suc (Suc 0))],
      Returned (Some core_bare, None))"
  by (simp add: NewCore_def beforeDiscovery_def andThen_def finish_def setCryptoSuite_def
      setPeerPool_def setOrderer_def newCore_def applyDefaults_def initCryptoSuite_def
      initIdentity_def initPeerPool_def initDiscovery_def initOrderer_def initFetcher_def
      Let_def env0_construction core_bare_def)

lemma mychannel_resolved:
  "fst (Channel env0 (fresh core0) ''mychannel'') =
     Returned \<lparr>ch_addr = Suc (Suc 0), ch_mspId = ''Org1MSP'', ch_name = ''mychannel'',
               ch_peerPool = Some (PeerPool 0), ch_orderer = Some (Orderer (Suc 0)),
               ch_discoveryProvider = Some (DiscoveryProvider 0),
               ch_identity = Some (SigningIdentity 0), ch_fabricV2 = False,
               ch_logger = Some DefaultLogger\<rparr>"
proof -
  have "discoverOrderer env0 (w_core (fresh core0)) (w_allocs (fresh core0)) ''mychannel'' =
     ([Log DebugLevel initiating_new None, DiscoveryChannel ''mychannel'',
       GRPCConnectionFromConfigs
             [\<lparr>Host = ''orderer0:7050'', Tls = TlsConfig 0\<rparr>,
              \<lparr>Host = ''orderer1:7050'', Tls = TlsConfig 3\<rparr>,
              \<lparr>Host = ''orderer2:7050'', Tls = TlsConfig 2\<rparr>],
       OrdererFromGRPC (Some (ClientConn 3))],
      Returned (Some (Orderer (Suc 0))))"
    by (simp add: discoverOrderer_def customOrderer_eq env0_simps newOrderer_def)
  from Channel_resolved [OF _ _ this refl] show ?thesis
    by (simp add: core0_def fresh_def)
qed

section \<open>The claims\<close>

text \<open>
  C1. The claim: when the Core has no discovery provider, \<^verbatim>\<open>Channel(n)\<close> logs that, goes
  on without a channel-specific orderer and returns a Channel bound to the default
  orderer; nothing panics.

  The code calls \<^verbatim>\<open>c.discoveryProvider.Channel\<close> on line 98 without a test for nil.
  \<open>NewCore\<close>, given options that set the crypto suite, the peer pool and the orderer and
  no configuration, returns a Core whose discovery provider is nil; on that Core
  \<open>Channel\<close> writes the debug entry of line 97 and panics. No Channel is returned, and no
  entry about a missing provider is logged.
\<close>

theorem Channel_without_discovery_panics:
  "NewCore env0 ''Org1MSP'' (Some (Identity 0)) [setCryptoSuite, setPeerPool, setOrderer] =
     ([OptionApplied 0, OptionApplied (Suc 0), OptionApplied (Suc (Suc 0))],
      Returned (Some core_bare, None)) \<and>
   discoveryProvider core_bare = None \<and>
   Channel env0 (fresh core_bare) ''mychannel'' =
     (Panic nil_dereference,
      \<lparr>w_core = core_bare, w_trace = [Log DebugLevel initiating_new None], w_allocs = Suc 0\<rparr>)"
proof -
  have "Channel env0 (fresh core_bare) ''mychannel'' =
     (Panic nil_dereference,
      \<lparr>w_core = core_bare, w_trace = [Log DebugLevel initiating_new None], w_allocs = Suc 0\<rparr>)"
    using Channel_without_provider [of "fresh core_bare" "''mychannel''" env0]
    by (simp add: fresh_def core_bare_def)
  with NewCore_bare show ?thesis by (simp add: core_bare_def)
qed

text \<open>
  C2. The claim: with the Gossip discovery type and no bootstrap connection in the
  configuration, \<open>NewCore\<close> returns an error that is not nil, and no Core.

  Line 220 wraps the variable \<^verbatim>\<open>err\<close> of line 145, which is nil there, and
  \<^verbatim>\<open>errors.Wrap\<close> of nil is nil: the constructor returns no Core and no error.
\<close>

theorem NewCore_gossip_without_connection_returns_nil_nil:
  "Connection (Discovery config_gossip) = None \<and>
   discovery_Type (Discovery config_gossip) = GossipServiceDiscoveryType env0 \<and>
   NewCore env0 ''Org1MSP'' (Some (Identity 0)) [setConfig config_gossip] =
     ([OptionApplied 0, Log InfoLevel ''initializing crypto suite'' None,
       Log InfoLevel ''initializing peer pool'' None,
       Log InfoLevel ''initializing discovery provider'' None],
      Returned (None, None))"
proof -
  have before: "beforeDiscovery env0 ''Org1MSP'' (Some (Identity 0)) [setConfig config_gossip] =
     ([OptionApplied 0, Log InfoLevel ''initializing crypto suite'' None,
       Log InfoLevel ''initializing peer pool'' None],
      Next (configured config_gossip))"
    by (rule beforeDiscovery_env0) (simp_all add: config_simps)
  have gossip: "discovery_Type (Discovery
      (config_gossip\<lparr>Crypto := \<lparr>crypto_Type = ''ecdsa'', crypto_Options = 0\<rparr>\<rparr>)) =
      GossipServiceDiscoveryType env0"
    and differ: "GossipServiceDiscoveryType env0 \<noteq> LocalConfigServiceDiscoveryType env0"
    and absent: "Connection (Discovery
      (config_gossip\<lparr>Crypto := \<lparr>crypto_Type = ''ecdsa'', crypto_Options = 0\<rparr>\<rparr>)) = None"
    by (simp_all add: config_simps env0_construction)
  from NewCore_gossip_without_connection [OF before configured_simps gossip differ absent]
  show ?thesis by (simp add: config_simps env0_construction)
qed

text \<open>
  C3. The claim: when discovery returned orderers and the connection build or the
  orderer construction fails, \<^verbatim>\<open>Channel(n)\<close> logs the error, binds no channel-specific
  orderer and returns a Channel bound to the default orderer.

  After a failed connection build the code logs the error (line 122) and goes on to
  line 124: it constructs the orderer from the connection value the failed build
  returned, and binds whatever orderer comes back. For the channel whose only orderer
  address cannot be reached, the build fails, \<^verbatim>\<open>orderer.NewFromGRPC\<close> is called with the nil
  connection, and the Channel is bound to the orderer it returns, the new object
  \<open>Orderer (Suc 0)\<close>, not to the default \<open>Orderer 0\<close>.
\<close>

theorem Channel_failed_connection_still_used:
  "orderer core0 = Some (Orderer 0) \<and>
   fst (Channel env0 (fresh core0) ''unreachable'') =
     Returned \<lparr>ch_addr = Suc (Suc 0), ch_mspId = ''Org1MSP'', ch_name = ''unreachable'',
               ch_peerPool = Some (PeerPool 0), ch_orderer = Some (Orderer (Suc 0)),
               ch_discoveryProvider = Some (DiscoveryProvider 0),
               ch_identity = Some (SigningIdentity 0), ch_fabricV2 = False,
               ch_logger = Some DefaultLogger\<rparr> \<and>
   w_trace (snd (Channel env0 (fresh core0) ''unreachable'')) =
     [Log DebugLevel initiating_new None, DiscoveryChannel ''unreachable'',
      GRPCConnectionFromConfigs [\<lparr>Host = ''down:7050'', Tls = TlsConfig 0\<rparr>],
      Log ErrorLevel failed_connection (Some (Opaque 2)), OrdererFromGRPC None,
      ChannelConstructed ''unreachable'' (Suc (Suc 0))]"
proof -
  have "discoverOrderer env0 (w_core (fresh core0)) (w_allocs (fresh core0)) ''unreachable'' =
     ([Log DebugLevel initiating_new None, DiscoveryChannel ''unreachable'',
       GRPCConnectionFromConfigs [\<lparr>Host = ''down:7050'', Tls = TlsConfig 0\<rparr>],
       Log ErrorLevel failed_connection (Some (Opaque 2)), OrdererFromGRPC None],
      Returned (Some (Orderer (Suc 0))))"
    by (simp add: discoverOrderer_def customOrderer_eq env0_simps newOrderer_def)
  from Channel_resolved [OF _ _ this refl] show ?thesis
    by (simp add: core0_def fresh_def)
qed

text \<open>
  C4. The claim: for a configuration that is present and has no discovery type, with no
  provider set by an option, \<open>NewCore\<close> leaves the provider unset and returns no error
  for that stage.

  The \<^verbatim>\<open>switch\<close> of line 212 has a default case: the empty string is a type it does not
  know, and the constructor returns the error of line 269. First the claim fails on
  \<open>config_untyped\<close>; then the amended claim: when the constructor reaches the discovery
  stage with a configuration whose discovery type is empty and no provider, and neither
  discovery constant is the empty string, it returns no Core and the error that names
  the unknown type and the two known ones.
\<close>

theorem NewCore_empty_discovery_type_counterexample:
  "config (configured config_untyped) \<noteq> None \<and>
   map_option (discovery_Type \<circ> Discovery) (config (configured config_untyped)) = Some [] \<and>
   NewCore env0 ''Org1MSP'' (Some (Identity 0)) [setConfig config_untyped] =
     ([OptionApplied 0, Log InfoLevel ''initializing crypto suite'' None,
       Log InfoLevel ''initializing peer pool'' None,
       Log InfoLevel ''initializing discovery provider'' None],
      Returned (None, Some (Fundamental ''unknown discovery type=. available: local, gossip'')))"
proof -
  have "initDiscovery env0 None (configured config_untyped) =
      ([Log InfoLevel ''initializing discovery provider'' None],
       Return None (Some (Fundamental ''unknown discovery type=. available: local, gossip'')))"
    by (simp add: initDiscovery_def configured_simps config_simps env0_construction Let_def
        unknownDiscoveryType_def)
  from NewCore_at_discovery [OF beforeDiscovery_env0 this]
  show ?thesis by (simp add: configured_simps config_simps)
qed

text \<open>C4, as amended.\<close>

theorem NewCore_empty_discovery_type:
  assumes "beforeDiscovery e msp idn opts = (evs, Next c)"
    and "config c = Some cfg" and "discoveryProvider c = None"
    and "discovery_Type (Discovery cfg) = []"
    and "LocalConfigServiceDiscoveryType e \<noteq> []" and "GossipServiceDiscoveryType e \<noteq> []"
  shows "NewCore e msp idn opts =
     (evs @ [Log InfoLevel ''initializing discovery provider'' None],
      Returned (None, Some (unknownDiscoveryType e [])))"
proof -
  from assms(2-6) have "initDiscovery e None c =
      ([Log InfoLevel ''initializing discovery provider'' None],
       Return None (Some (unknownDiscoveryType e [])))"
    by (auto simp: initDiscovery_def Let_def)
  from NewCore_at_discovery [OF assms(1) this] show ?thesis .
qed

theorem NewCore_empty_discovery_type_witness:
  "NewCore env0 ''Org1MSP'' (Some (Identity 0)) [setConfig config_untyped] =
     ([OptionApplied 0, Log InfoLevel ''initializing crypto suite'' None,
       Log InfoLevel ''initializing peer pool'' None,
       Log InfoLevel ''initializing discovery provider'' None],
      Returned (None, Some (unknownDiscoveryType env0 [])))"
proof -
  have before: "beforeDiscovery env0 ''Org1MSP'' (Some (Identity 0)) [setConfig config_untyped] =
     ([OptionApplied 0, Log InfoLevel ''initializing crypto suite'' None,
       Log InfoLevel ''initializing peer pool'' None],
      Next (configured config_untyped))"
    by (rule beforeDiscovery_env0) (simp_all add: config_simps)
  have untyped: "discovery_Type (Discovery
      (config_untyped\<lparr>Crypto := \<lparr>crypto_Type = ''ecdsa'', crypto_Options = 0\<rparr>\<rparr>)) = []"
    by (simp add: config_simps)
  have known: "LocalConfigServiceDiscoveryType env0 \<noteq> []" "GossipServiceDiscoveryType env0 \<noteq> []"
    by (simp_all add: env0_construction)
  from NewCore_empty_discovery_type [OF before configured_simps untyped known]
  show ?thesis by simp
qed

text \<open>
  C5. If the lookup of the discovery provider returns an error, or a result with no
  orderer endpoints, the Channel that \<^verbatim>\<open>Channel(n)\<close> returns is bound to the default
  orderer of the Core. (The lookup is made when the Core has a logger and a provider
  and \<open>n\<close> is not cached.)
\<close>

theorem Channel_fallback:
  assumes "logger (w_core w) \<noteq> None" and "channels (w_core w) n = None"
    and "discoveryProvider (w_core w) = Some p"
    and "(\<exists>d err. discovery_Channel e p (ctx (w_core w)) n = (d, Some err)) \<or>
         (\<exists>d. discovery_Channel e p (ctx (w_core w)) n = (Some d, None) \<and> Orderers_of d = [])"
  shows "\<exists>ch. fst (Channel e w n) = Returned ch \<and> ch_orderer ch = orderer (w_core w) \<and>
              channels (w_core (snd (Channel e w n))) n = Some ch"
proof -
  from assms(1) obtain lg where lg: "logger (w_core w) = Some lg" by auto
  from assms(4) obtain evs where
    "discoverOrderer e (w_core w) (w_allocs w) n = (evs, Returned None)"
    using discoverOrderer_error [OF assms(3)] discoverOrderer_empty [OF assms(3)] by blast
  from Channel_resolved [OF lg assms(2) this refl] show ?thesis by simp
qed

theorem Channel_fallback_witness:
  "(\<exists>ch. fst (Channel env0 (fresh core0) ''absent'') = Returned ch \<and>
         ch_orderer ch = Some (Orderer 0) \<and>
         channels (w_core (snd (Channel env0 (fresh core0) ''absent''))) ''absent'' = Some ch) \<and>
   (\<exists>ch. fst (Channel env0 (fresh core0) ''plain'') = Returned ch \<and>
         ch_orderer ch = Some (Orderer 0) \<and>
         channels (w_core (snd (Channel env0 (fresh core0) ''plain''))) ''plain'' = Some ch)"
proof -
  have a: "(\<exists>d err. discovery_Channel env0 (DiscoveryProvider 0) (ctx (w_core (fresh core0))) ''absent'' = (d, Some err)) \<or>
         (\<exists>d. discovery_Channel env0 (DiscoveryProvider 0) (ctx (w_core (fresh core0))) ''absent'' = (Some d, None) \<and> Orderers_of d = [])"
    by (simp add: env0_simps)
  have b: "(\<exists>d err. discovery_Channel env0 (DiscoveryProvider 0) (ctx (w_core (fresh core0))) ''plain'' = (d, Some err)) \<or>
         (\<exists>d. discovery_Channel env0 (DiscoveryProvider 0) (ctx (w_core (fresh core0))) ''plain'' = (Some d, None) \<and> Orderers_of d = [])"
    by (simp add: env0_simps)
  from Channel_fallback [OF _ _ _ a] Channel_fallback [OF _ _ _ b]
  show ?thesis by simp
qed

text \<open>
  C6. If discovery returns one or more orderer endpoints, each with one or more
  addresses, and the connection build and the orderer construction succeed, the Channel
  is bound to the orderer constructed in this call, the new object at the next free
  address, and that orderer was built from exactly the descriptors (address, TLS) of
  every endpoint's addresses, flattened in order: the events show the one connection
  build, over that list, and the construction from the connection it returned. The
  bound orderer is not the default one wherever the default orderer lies below the next
  free address, and that is so in every state reached from a Core just constructed by
  calls of its methods.
\<close>

theorem Channel_custom_orderer:
  assumes "logger (w_core w) \<noteq> None" and "channels (w_core w) n = None"
    and "discoveryProvider (w_core w) = Some p"
    and "discovery_Channel e p (ctx (w_core w)) n = (Some d, None)"
    and "Orderers_of d \<noteq> []"
    and "\<forall>ord \<in> set (Orderers_of d). HostAddresses ord \<noteq> []"
    and "NewGRPCConnectionFromConfigs e (ctx (w_core w)) (logger (w_core w))
           (concat (map (\<lambda>ord. map (\<lambda>a. \<lparr>Host = Address a, Tls = TLSSettings a\<rparr>) (HostAddresses ord))
              (Orderers_of d))) = (conn, None)"
    and "NewFromGRPC e (ctx (w_core w)) conn = (True, None)"
  shows "(\<exists>ch. fst (Channel e w n) = Returned ch \<and>
              ch_orderer ch = Some (Orderer (w_allocs w)) \<and>
              (orderer_allocated w \<longrightarrow> ch_orderer ch \<noteq> orderer (w_core w)) \<and>
              ((\<exists>c ks. w = run e (fresh c) ks) \<longrightarrow> ch_orderer ch \<noteq> orderer (w_core w)) \<and>
              channels (w_core (snd (Channel e w n))) n = Some ch \<and>
              w_trace (snd (Channel e w n)) =
                w_trace w @
                [Log DebugLevel initiating_new None, DiscoveryChannel n,
                 GRPCConnectionFromConfigs
                   (concat (map (\<lambda>ord. map (\<lambda>a. \<lparr>Host = Address a, Tls = TLSSettings a\<rparr>) (HostAddresses ord))
                      (Orderers_of d))),
                 OrdererFromGRPC conn, ChannelConstructed n (Suc (w_allocs w))]) \<and>
         orderer_allocated (run e (fresh c0) ks0)"
proof (rule conjI)
  from assms(1) obtain lg where lg: "logger (w_core w) = Some lg" by auto
  have flat: "appendOrderers [] (Orderers_of d) =
      concat (map (\<lambda>ord. map (\<lambda>a. \<lparr>Host = Address a, Tls = TLSSettings a\<rparr>) (HostAddresses ord)) (Orderers_of d))"
    by (simp add: appendOrderers_concat)
  have custom: "customOrderer e (w_core w) (w_allocs w) (Orderers_of d) =
      ([GRPCConnectionFromConfigs (appendOrderers [] (Orderers_of d)), OrdererFromGRPC conn],
       Some (Orderer (w_allocs w)))"
    using assms(7,8) by (simp add: customOrderer_eq flat newOrderer_def)
  from discoverOrderer_custom [OF assms(3,4,5), of "w_allocs w"] custom
  have found: "discoverOrderer e (w_core w) (w_allocs w) n =
      ([Log DebugLevel initiating_new None, DiscoveryChannel n,
        GRPCConnectionFromConfigs (appendOrderers [] (Orderers_of d)), OrdererFromGRPC conn],
       Returned (Some (Orderer (w_allocs w))))"
    by simp
  have reached: "(\<exists>c ks. w = run e (fresh c) ks) \<longrightarrow> orderer_allocated w"
    by (auto intro: run_allocated fresh_allocated)
  from Channel_resolved [OF lg assms(2) found refl] reached allocated_distinct [of w]
  show "\<exists>ch. fst (Channel e w n) = Returned ch \<and>
              ch_orderer ch = Some (Orderer (w_allocs w)) \<and>
              (orderer_allocated w \<longrightarrow> ch_orderer ch \<noteq> orderer (w_core w)) \<and>
              ((\<exists>c ks. w = run e (fresh c) ks) \<longrightarrow> ch_orderer ch \<noteq> orderer (w_core w)) \<and>
              channels (w_core (snd (Channel e w n))) n = Some ch \<and>
              w_trace (snd (Channel e w n)) =
                w_trace w @
                [Log DebugLevel initiating_new None, DiscoveryChannel n,
                 GRPCConnectionFromConfigs
                   (concat (map (\<lambda>ord. map (\<lambda>a. \<lparr>Host = Address a, Tls = TLSSettings a\<rparr>) (HostAddresses ord))
                      (Orderers_of d))),
                 OrdererFromGRPC conn, ChannelConstructed n (Suc (w_allocs w))]"
    by (auto simp: flat)
next
  show "orderer_allocated (run e (fresh c0) ks0)"
    by (rule run_allocated) (rule fresh_allocated)
qed

text \<open>
  The witness is the Core that \<open>NewCore\<close> returns for \<open>config0\<close>, with the default orderer it
  constructed at address 0, after a call for another channel.
\<close>

theorem Channel_custom_orderer_witness:
  "snd (NewCore env0 ''Org1MSP'' (Some (Identity 0)) [setConfig config0]) =
     Returned (Some core_constructed, None) \<and>
   orderer (w_core (run env0 (fresh core_constructed) [CallChannel ''plain''])) = Some (Orderer 0) \<and>
   (\<exists>ch. fst (Channel env0 (run env0 (fresh core_constructed) [CallChannel ''plain'']) ''mychannel'') =
           Returned ch \<and>
         ch_orderer ch = Some (Orderer (Suc (Suc 0))) \<and>
         ch_orderer ch \<noteq> orderer (w_core (run env0 (fresh core_constructed) [CallChannel ''plain''])) \<and>
         channels (w_core (snd (Channel env0 (run env0 (fresh core_constructed) [CallChannel ''plain''])
                                  ''mychannel''))) ''mychannel'' = Some ch \<and>
         w_trace (snd (Channel env0 (run env0 (fresh core_constructed) [CallChannel ''plain''])
                         ''mychannel'')) =
           [Log DebugLevel initiating_new None, DiscoveryChannel ''plain'',
            ChannelConstructed ''plain'' (Suc 0),
            Log DebugLevel initiating_new None, DiscoveryChannel ''mychannel'',
            GRPCConnectionFromConfigs
              [\<lparr>Host = ''orderer0:7050'', Tls = TlsConfig 0\<rparr>,
               \<lparr>Host = ''orderer1:7050'', Tls = TlsConfig 3\<rparr>,
               \<lparr>Host = ''orderer2:7050'', Tls = TlsConfig 2\<rparr>],
            OrdererFromGRPC (Some (ClientConn 3)),
            ChannelConstructed ''mychannel'' (Suc (Suc (Suc 0)))]) \<and>
   orderer_allocated (run env0 (fresh core_constructed) [CallChannel ''plain''])"
proof -
  let ?w = "run env0 (fresh core_constructed) [CallChannel ''plain'']"
  let ?d = "\<lparr>Orderers_of =
                 [\<lparr>MspID = ''OrdererMSP'', HostAddresses =
                     [\<lparr>Address = ''orderer0:7050'', TLSSettings = TlsConfig 0\<rparr>,
                      \<lparr>Address = ''orderer1:7050'', TLSSettings = TlsConfig 3\<rparr>]\<rparr>,
                  \<lparr>MspID = ''OtherOrdererMSP'', HostAddresses =
                     [\<lparr>Address = ''orderer2:7050'', TLSSettings = TlsConfig 2\<rparr>]\<rparr>],
               ChannelName = ''mychannel''\<rparr>"
  have plain: "discoverOrderer env0 (w_core (fresh core_constructed)) (w_allocs (fresh core_constructed))
      ''plain'' = ([Log DebugLevel initiating_new None, DiscoveryChannel ''plain''], Returned None)"
    by (simp add: discoverOrderer_def env0_simps fresh_def core_constructed_def)
  have w: "?w =
      \<lparr>w_core = core_constructed\<lparr>channels := (channels core_constructed)(''plain'' \<mapsto>
                \<lparr>ch_addr = Suc 0, ch_mspId = ''Org1MSP'', ch_name = ''plain'',
                 ch_peerPool = Some (PeerPool (Suc 0)), ch_orderer = Some (Orderer 0),
                 ch_discoveryProvider = Some (DiscoveryProvider 0),
                 ch_identity = Some (SigningIdentity 0), ch_fabricV2 = False,
                 ch_logger = Some DefaultLogger\<rparr>)\<rparr>,
       w_trace = [Log DebugLevel initiating_new None, DiscoveryChannel ''plain'',
                  ChannelConstructed ''plain'' (Suc 0)],
       w_allocs = Suc (Suc 0)\<rparr>"
    using Channel_resolved [OF _ _ plain refl]
    by (simp add: fresh_def core_constructed_def)
  have h: "logger (w_core ?w) \<noteq> None" "channels (w_core ?w) ''mychannel'' = None"
    "discoveryProvider (w_core ?w) = Some (DiscoveryProvider 0)"
    "discovery_Channel env0 (DiscoveryProvider 0) (ctx (w_core ?w)) ''mychannel'' = (Some ?d, None)"
    "Orderers_of ?d \<noteq> []" "\<forall>ord \<in> set (Orderers_of ?d). HostAddresses ord \<noteq> []"
    "NewGRPCConnectionFromConfigs env0 (ctx (w_core ?w)) (logger (w_core ?w))
           (concat (map (\<lambda>ord. map (\<lambda>a. \<lparr>Host = Address a, Tls = TLSSettings a\<rparr>) (HostAddresses ord))
              (Orderers_of ?d))) = (Some (ClientConn 3), None)"
    "NewFromGRPC env0 (ctx (w_core ?w)) (Some (ClientConn 3)) = (True, None)"
    unfolding w by (simp_all add: env0_simps core_constructed_def)
  have reach: "\<exists>c ks. ?w = run env0 (fresh c) ks" by blast
  from Channel_custom_orderer [OF h, of core_constructed "[CallChannel ''plain'']"] reach
  have "(\<exists>ch. fst (Channel env0 ?w ''mychannel'') = Returned ch \<and>
              ch_orderer ch = Some (Orderer (w_allocs ?w)) \<and>
              ch_orderer ch \<noteq> orderer (w_core ?w) \<and>
              channels (w_core (snd (Channel env0 ?w ''mychannel''))) ''mychannel'' = Some ch \<and>
              w_trace (snd (Channel env0 ?w ''mychannel'')) =
                w_trace ?w @
                [Log DebugLevel initiating_new None, DiscoveryChannel ''mychannel'',
                 GRPCConnectionFromConfigs
                   (concat (map (\<lambda>ord. map (\<lambda>a. \<lparr>Host = Address a, Tls = TLSSettings a\<rparr>) (HostAddresses ord))
                      (Orderers_of ?d))),
                 OrdererFromGRPC (Some (ClientConn 3)), ChannelConstructed ''mychannel'' (Suc (w_allocs ?w))]) \<and>
         orderer_allocated ?w"
    by blast
  moreover have "w_allocs ?w = Suc (Suc 0)" "w_trace ?w =
      [Log DebugLevel initiating_new None, DiscoveryChannel ''plain'',
       ChannelConstructed ''plain'' (Suc 0)]" "orderer (w_core ?w) = Some (Orderer 0)"
    unfolding w by (simp_all add: core_constructed_def)
  ultimately show ?thesis using NewCore_config0 by simp
qed

text \<open>
  C7. If \<^verbatim>\<open>Channel(n)\<close> returns a Channel, then after any further calls on the same Core
  \<^verbatim>\<open>Channel(n)\<close> returns that same Channel (the same fields and the same address) and
  changes nothing: no event, no lookup. Over the first call and all the later ones the
  discovery provider is asked about \<open>n\<close> at most once. And an entry of the channel cache
  stays what it is over any sequence of calls.
\<close>

theorem Channel_idempotent:
  "(fst (Channel e w n) = Returned ch \<longrightarrow>
      Channel e (run e (snd (Channel e w n)) ks) n = (Returned ch, run e (snd (Channel e w n)) ks) \<and>
      count_list (w_trace (run e (snd (Channel e w n)) ks)) (DiscoveryChannel n)
        \<le> count_list (w_trace w) (DiscoveryChannel n) + 1) \<and>
   (channels (w_core w) m = Some x \<longrightarrow> channels (w_core (run e w ks)) m = Some x)"
proof (rule conjI)
  show "fst (Channel e w n) = Returned ch \<longrightarrow>
      Channel e (run e (snd (Channel e w n)) ks) n = (Returned ch, run e (snd (Channel e w n)) ks) \<and>
      count_list (w_trace (run e (snd (Channel e w n)) ks)) (DiscoveryChannel n)
        \<le> count_list (w_trace w) (DiscoveryChannel n) + 1"
  proof
    let ?w1 = "snd (Channel e w n)"
    let ?w2 = "run e ?w1 ks"
    assume "fst (Channel e w n) = Returned ch"
    from Channel_returned_cached [OF this]
    have lg: "logger (w_core w) \<noteq> None" and cached: "channels (w_core ?w1) n = Some ch"
      by simp_all
    from lg obtain l where "logger (w_core ?w2) = Some l"
      by (auto simp: run_logger Channel_logger)
    moreover from cached have "channels (w_core ?w2) n = Some ch"
      by (rule run_keeps_entry)
    ultimately have again: "Channel e ?w2 n = (Returned ch, ?w2)"
      by (rule Channel_cached)
    have "count_list (w_trace ?w2) (DiscoveryChannel n) = count_list (w_trace ?w1) (DiscoveryChannel n)"
      using cached by (rule run_queries_cached)
    with Channel_queries_once [of e w n]
    have "count_list (w_trace ?w2) (DiscoveryChannel n) \<le> count_list (w_trace w) (DiscoveryChannel n) + 1"
      by simp
    with again show "Channel e ?w2 n = (Returned ch, ?w2) \<and>
        count_list (w_trace ?w2) (DiscoveryChannel n) \<le> count_list (w_trace w) (DiscoveryChannel n) + 1"
      by simp
  qed
next
  show "channels (w_core w) m = Some x \<longrightarrow> channels (w_core (run e w ks)) m = Some x"
    by (simp add: run_keeps_entry)
qed

theorem Channel_idempotent_witness:
  "fst (Channel env0
         (run env0 (snd (Channel env0 (fresh core0) ''mychannel''))
            [CallChannel ''plain'', CallChaincode ''mycc'', CallChannel ''mychannel''])
         ''mychannel'') =
     Returned \<lparr>ch_addr = Suc (Suc 0), ch_mspId = ''Org1MSP'', ch_name = ''mychannel'',
               ch_peerPool = Some (PeerPool 0), ch_orderer = Some (Orderer (Suc 0)),
               ch_discoveryProvider = Some (DiscoveryProvider 0),
               ch_identity = Some (SigningIdentity 0), ch_fabricV2 = False,
               ch_logger = Some DefaultLogger\<rparr> \<and>
   snd (Channel env0
         (run env0 (snd (Channel env0 (fresh core0) ''mychannel''))
            [CallChannel ''plain'', CallChaincode ''mycc'', CallChannel ''mychannel''])
         ''mychannel'') =
     run env0 (snd (Channel env0 (fresh core0) ''mychannel''))
            [CallChannel ''plain'', CallChaincode ''mycc'', CallChannel ''mychannel''] \<and>
   count_list
     (w_trace (run env0 (snd (Channel env0 (fresh core0) ''mychannel''))
            [CallChannel ''plain'', CallChaincode ''mycc'', CallChannel ''mychannel'']))
     (DiscoveryChannel ''mychannel'') \<le> 1 \<and>
   channels (w_core (run env0 (snd (Channel env0 (fresh core0) ''mychannel''))
            [CallChannel ''plain'', CallChaincode ''mycc'', CallChannel ''mychannel''])) ''mychannel'' =
     Some \<lparr>ch_addr = Suc (Suc 0), ch_mspId = ''Org1MSP'', ch_name = ''mychannel'',
               ch_peerPool = Some (PeerPool 0), ch_orderer = Some (Orderer (Suc 0)),
               ch_discoveryProvider = Some (DiscoveryProvider 0),
               ch_identity = Some (SigningIdentity 0), ch_fabricV2 = False,
               ch_logger = Some DefaultLogger\<rparr>"
proof -
  let ?ch = "\<lparr>ch_addr = Suc (Suc 0), ch_mspId = ''Org1MSP'', ch_name = ''mychannel'',
               ch_peerPool = Some (PeerPool 0), ch_orderer = Some (Orderer (Suc 0)),
               ch_discoveryProvider = Some (DiscoveryProvider 0),
               ch_identity = Some (SigningIdentity 0), ch_fabricV2 = False,
               ch_logger = Some DefaultLogger\<rparr>"
  let ?ks = "[CallChannel ''plain'', CallChaincode ''mycc'', CallChannel ''mychannel'']"
  let ?w1 = "snd (Channel env0 (fresh core0) ''mychannel'')"
  from Channel_returned_cached [OF mychannel_resolved]
  have cached: "channels (w_core ?w1) ''mychannel'' = Some ?ch" by simp
  from Channel_idempotent [of env0 "fresh core0" "''mychannel''" ?ch ?ks "''mychannel''" ?ch]
    Channel_idempotent [of env0 ?w1 "''mychannel''" ?ch ?ks "''mychannel''" ?ch]
    mychannel_resolved cached
  show ?thesis by simp
qed

text \<open>
  C8. The options are applied in the order given. When each of them returns nil, every
  one is called, in order, each on the Core the ones before it left, and \<open>NewCore\<close> goes
  on from the Core the last one left: its events are those calls followed by the events
  of the later stages run on that Core, and its result is theirs. When the options
  before some option return nil and that option returns an error, the options up to it
  are the only ones called, and \<open>NewCore\<close> returns no Core and that error wrapped with
  the message of line 154, whatever options follow.
\<close>

theorem NewCore_options_in_order:
  "((\<forall>k < length opts.
       fst ((opts ! k) (foldl (\<lambda>c opt. snd (opt c)) (newCore msp) (take k opts))) = None) \<longrightarrow>
     applyOptions 0 opts (newCore msp) =
       (map OptionApplied [0 ..< length opts],
        Next (foldl (\<lambda>c opt. snd (opt c)) (newCore msp) opts)) \<and>
     NewCore e msp idn opts =
       (case finish
               (andThen (andThen (andThen (andThen (andThen (andThen
                  (applyDefaults (foldl (\<lambda>c opt. snd (opt c)) (newCore msp) opts))
                  (initCryptoSuite e)) (initIdentity e idn)) (initPeerPool e))
                  (initDiscovery e None)) (initOrderer e)) initFetcher) of
          (evs, r) \<Rightarrow> (map OptionApplied [0 ..< length opts] @ evs, r))) \<and>
   ((\<forall>k < length pre.
       fst ((pre ! k) (foldl (\<lambda>c opt. snd (opt c)) (newCore msp) (take k pre))) = None) \<and>
     fst (opt (foldl (\<lambda>c opt. snd (opt c)) (newCore msp) pre)) = Some err \<longrightarrow>
     NewCore e msp idn (pre @ opt # post) =
       (map OptionApplied [0 ..< Suc (length pre)],
        Returned (None, Wrap (Some err) ''failed to apply option'')))"
proof (intro conjI impI)
  assume "\<forall>k < length opts.
       fst ((opts ! k) (foldl (\<lambda>c opt. snd (opt c)) (newCore msp) (take k opts))) = None"
  from applyOptions_all [OF this, of 0]
  show "applyOptions 0 opts (newCore msp) =
       (map OptionApplied [0 ..< length opts],
        Next (foldl (\<lambda>c opt. snd (opt c)) (newCore msp) opts))"
    by simp
  then show "NewCore e msp idn opts =
       (case finish
               (andThen (andThen (andThen (andThen (andThen (andThen
                  (applyDefaults (foldl (\<lambda>c opt. snd (opt c)) (newCore msp) opts))
                  (initCryptoSuite e)) (initIdentity e idn)) (initPeerPool e))
                  (initDiscovery e None)) (initOrderer e)) initFetcher) of
          (evs, r) \<Rightarrow> (map OptionApplied [0 ..< length opts] @ evs, r))"
    by (rule NewCore_after_options)
next
  assume a: "(\<forall>k < length pre.
       fst ((pre ! k) (foldl (\<lambda>c opt. snd (opt c)) (newCore msp) (take k pre))) = None) \<and>
     fst (opt (foldl (\<lambda>c opt. snd (opt c)) (newCore msp) pre)) = Some err"
  from applyOptions_failure [of pre "newCore msp" opt err 0 post] a
  have "applyOptions 0 (pre @ opt # post) (newCore msp) =
     (map OptionApplied [0 ..< Suc (length pre)],
      Return None (Some (WithMessage err ''failed to apply option'')))"
    by simp
  from NewCore_options_returned [OF this]
  show "NewCore e msp idn (pre @ opt # post) =
       (map OptionApplied [0 ..< Suc (length pre)],
        Returned (None, Wrap (Some err) ''failed to apply option''))"
    by simp
qed

theorem NewCore_options_in_order_witness:
  "applyOptions 0 [setCryptoSuite, setPeerPool, setOrderer] (newCore ''Org1MSP'') =
     ([OptionApplied 0, OptionApplied (Suc 0), OptionApplied (Suc (Suc 0))],
      Next (newCore ''Org1MSP''\<lparr>peerPool := Some (PeerPool 0), orderer := Some (Orderer 0),
                                cs := Some (CryptoSuite 0)\<rparr>)) \<and>
   NewCore env0 ''Org1MSP'' (Some (Identity 0)) [setCryptoSuite, setPeerPool, setOrderer] =
     ([OptionApplied 0, OptionApplied (Suc 0), OptionApplied (Suc (Suc 0))],
      Returned (Some core_bare, None)) \<and>
   NewCore env0 ''Org1MSP'' (Some (Identity 0)) ([setCryptoSuite, setOrderer] @ refuse # [setPeerPool]) =
     ([OptionApplied 0, OptionApplied (Suc 0), OptionApplied (Suc (Suc 0))],
      Returned (None, Some (WithMessage (Opaque 9) ''failed to apply option'')))"
proof -
  have all: "\<forall>k < length [setCryptoSuite, setPeerPool, setOrderer].
      fst (([setCryptoSuite, setPeerPool, setOrderer] ! k)
        (foldl (\<lambda>c opt. snd (opt c)) (newCore ''Org1MSP'')
           (take k [setCryptoSuite, setPeerPool, setOrderer]))) = None"
    by (auto simp: less_Suc_eq setCryptoSuite_def setPeerPool_def setOrderer_def)
  have pre: "\<forall>k < length [setCryptoSuite, setOrderer].
      fst (([setCryptoSuite, setOrderer] ! k)
        (foldl (\<lambda>c opt. snd (opt c)) (newCore ''Org1MSP'') (take k [setCryptoSuite, setOrderer]))) = None"
    by (auto simp: less_Suc_eq setCryptoSuite_def setOrderer_def)
  have bad: "fst (refuse (foldl (\<lambda>c opt. snd (opt c)) (newCore ''Org1MSP'') [setCryptoSuite, setOrderer]))
      = Some (Opaque 9)"
    by (simp add: refuse_def)
  from NewCore_options_in_order [of "[setCryptoSuite, setPeerPool, setOrderer]" "''Org1MSP''"
      env0 "Some (Identity 0)" "[setCryptoSuite, setOrderer]" refuse "Opaque 9" "[setPeerPool]"]
    all pre bad
  have "applyOptions 0 [setCryptoSuite, setPeerPool, setOrderer] (newCore ''Org1MSP'') =
       (map OptionApplied [0 ..< length [setCryptoSuite, setPeerPool, setOrderer]],
        Next (foldl (\<lambda>c opt. snd (opt c)) (newCore ''Org1MSP'') [setCryptoSuite, setPeerPool, setOrderer]))"
    and "NewCore env0 ''Org1MSP'' (Some (Identity 0)) [setCryptoSuite, setPeerPool, setOrderer] =
       (case finish
               (andThen (andThen (andThen (andThen (andThen (andThen
                  (applyDefaults (foldl (\<lambda>c opt. snd (opt c)) (newCore ''Org1MSP'')
                                    [setCryptoSuite, setPeerPool, setOrderer]))
                  (initCryptoSuite env0)) (initIdentity env0 (Some (Identity 0)))) (initPeerPool env0))
                  (initDiscovery env0 None)) (initOrderer env0)) initFetcher) of
          (evs, r) \<Rightarrow>
            (map OptionApplied [0 ..< length [setCryptoSuite, setPeerPool, setOrderer]] @ evs, r))"
    and "NewCore env0 ''Org1MSP'' (Some (Identity 0)) ([setCryptoSuite, setOrderer] @ refuse # [setPeerPool]) =
       (map OptionApplied [0 ..< Suc (length [setCryptoSuite, setOrderer])],
        Returned (None, Wrap (Some (Opaque 9)) ''failed to apply option''))"
    by blast+
  then show ?thesis
    by (simp add: setCryptoSuite_def setPeerPool_def setOrderer_def newCore_def andThen_def
        finish_def applyDefaults_def initCryptoSuite_def initIdentity_def initPeerPool_def
        initDiscovery_def initOrderer_def initFetcher_def Let_def env0_construction core_bare_def)
qed

text \<open>
  C9. When the options leave the Core without a crypto suite and with a configuration
  whose crypto type is the empty string, the crypto stage puts the built-in default
  \<^verbatim>\<open>ecdsa.DefaultConfig\<close> into the configuration and looks the suite up under the
  default's type and options; when the lookup fails construction stops with its error,
  wrapped. Every Core that \<open>NewCore\<close> then returns has the suite of that lookup and the
  default crypto configuration.
\<close>

theorem NewCore_default_crypto:
  assumes "applyOptions 0 opts (newCore msp) = (evs0, Next c0)"
    and "cs c0 = None" and "config c0 = Some cfg" and "crypto_Type (Crypto cfg) = []"
    and "got = GetSuite e (crypto_Type (ecdsa_DefaultConfig e)) (crypto_Options (ecdsa_DefaultConfig e))"
  shows "(\<exists>c1. applyDefaults c0 = ([], Next c1) \<and>
           initCryptoSuite e c1 =
             ([Log InfoLevel ''initializing crypto suite'' None],
              if snd got \<noteq> None
              then Return None (Wrap (snd got) ''failed to initialize crypto suite'')
              else Next (c1\<lparr>config := Some (cfg\<lparr>Crypto := ecdsa_DefaultConfig e\<rparr>), cs := fst got\<rparr>))) \<and>
         (\<forall>evs c b. NewCore e msp idn opts = (evs, Returned (Some c, b)) \<longrightarrow>
            cs c = fst got \<and> map_option Crypto (config c) = Some (ecdsa_DefaultConfig e))"
proof (rule conjI)
  obtain c1 where d: "applyDefaults c0 = ([], Next c1)" and c1: "cs c1 = cs c0" "config c1 = config c0"
    by (auto simp: applyDefaults_def Let_def)
  from c1 assms(2,3,4) show "\<exists>c1. applyDefaults c0 = ([], Next c1) \<and>
           initCryptoSuite e c1 =
             ([Log InfoLevel ''initializing crypto suite'' None],
              if snd got \<noteq> None
              then Return None (Wrap (snd got) ''failed to initialize crypto suite'')
              else Next (c1\<lparr>config := Some (cfg\<lparr>Crypto := ecdsa_DefaultConfig e\<rparr>), cs := fst got\<rparr>))"
    using d by (simp add: initCryptoSuite_default assms(5))
next
  show "\<forall>evs c b. NewCore e msp idn opts = (evs, Returned (Some c, b)) \<longrightarrow>
            cs c = fst got \<and> map_option Crypto (config c) = Some (ecdsa_DefaultConfig e)"
  proof (intro allI impI)
    fix evs c b
    assume "NewCore e msp idn opts = (evs, Returned (Some c, b))"
    from NewCore_Some [OF this] assms(1)
    obtain evs1 c1 evs2 c2 evs3 c3 evs4 c4 evs5 c5 evs6 c6 evs7 where
      s: "applyDefaults c0 = (evs1, Next c1)" "initCryptoSuite e c1 = (evs2, Next c2)"
         "initIdentity e idn c2 = (evs3, Next c3)" "initPeerPool e c3 = (evs4, Next c4)"
         "initDiscovery e None c4 = (evs5, Next c5)" "initOrderer e c5 = (evs6, Next c6)"
         "initFetcher c6 = (evs7, Next c)"
      by auto
    from applyDefaults_Next [OF s(1)] assms(2,3) have "cs c1 = None" "config c1 = Some cfg" by auto
    with s(2) assms(4)
    have c2: "cs c2 = fst got" "map_option Crypto (config c2) = Some (ecdsa_DefaultConfig e)"
      by (auto simp: initCryptoSuite_default assms(5) split: if_splits)
    from initIdentity_Next [OF s(3)] initPeerPool_Next [OF s(4)] initDiscovery_Next [OF s(5)]
      initOrderer_Next [OF s(6)] initFetcher_Next [OF s(7)] c2
    show "cs c = fst got \<and> map_option Crypto (config c) = Some (ecdsa_DefaultConfig e)"
      by auto
  qed
qed

theorem NewCore_default_crypto_witness:
  "(\<exists>c1. applyDefaults (newCore ''Org1MSP''\<lparr>config := Some config0\<rparr>) = ([], Next c1) \<and>
         initCryptoSuite env0 c1 =
           ([Log InfoLevel ''initializing crypto suite'' None],
            Next (c1\<lparr>config := Some (config0\<lparr>Crypto := \<lparr>crypto_Type = ''ecdsa'', crypto_Options = 0\<rparr>\<rparr>),
                     cs := Some (CryptoSuite 0)\<rparr>))) \<and>
   snd (NewCore env0 ''Org1MSP'' (Some (Identity 0)) [setConfig config0]) =
     Returned (Some core_constructed, None) \<and>
   cs core_constructed = Some (CryptoSuite 0) \<and>
   map_option Crypto (config core_constructed) = Some \<lparr>crypto_Type = ''ecdsa'', crypto_Options = 0\<rparr>"
proof -
  have opts: "applyOptions 0 [setConfig config0] (newCore ''Org1MSP'') =
      ([OptionApplied 0], Next (newCore ''Org1MSP''\<lparr>config := Some config0\<rparr>))"
    by (simp add: setConfig_def)
  have unset: "cs (newCore ''Org1MSP''\<lparr>config := Some config0\<rparr>) = None"
    and present: "config (newCore ''Org1MSP''\<lparr>config := Some config0\<rparr>) = Some config0"
    by (simp_all add: newCore_def)
  have got: "(Some (CryptoSuite 0), None) =
      GetSuite env0 (crypto_Type (ecdsa_DefaultConfig env0)) (crypto_Options (ecdsa_DefaultConfig env0))"
    by (simp add: env0_construction)
  from NewCore_default_crypto [OF opts unset present config_simps(5) got, of "Some (Identity 0)"]
    NewCore_config0
  show ?thesis by (simp add: env0_construction)
qed

text \<open>
  C10. If discovery returns orderer endpoints and none of them has an address, the
  descriptor list is empty and the code still takes the branch of the channel-specific
  orderer: it builds a connection over no descriptor and constructs an orderer from what
  the build returned, logging their errors. The Channel is bound to the orderer
  constructed, and to the default one when the construction returned none; when both
  steps succeed and return an orderer, the Channel is bound to it.
\<close>

theorem Channel_endpoints_without_addresses:
  assumes "logger (w_core w) \<noteq> None" and "channels (w_core w) n = None"
    and "discoveryProvider (w_core w) = Some p"
    and "discovery_Channel e p (ctx (w_core w)) n = (Some d, None)"
    and "Orderers_of d \<noteq> []"
    and "\<forall>ord \<in> set (Orderers_of d). HostAddresses ord = []"
    and "built = NewGRPCConnectionFromConfigs e (ctx (w_core w)) (logger (w_core w)) []"
    and "made = NewFromGRPC e (ctx (w_core w)) (fst built)"
    and "ord = newOrderer (w_allocs w) made"
  shows "appendOrderers [] (Orderers_of d) = [] \<and>
         (\<exists>ch. fst (Channel e w n) = Returned ch \<and>
               ch_orderer ch = (case ord of None \<Rightarrow> orderer (w_core w) | Some x \<Rightarrow> Some x) \<and>
               (snd built = None \<and> snd made = None \<and> ord \<noteq> None \<longrightarrow> ch_orderer ch = ord)) \<and>
         w_trace (snd (Channel e w n)) =
           w_trace w @
           [Log DebugLevel initiating_new None, DiscoveryChannel n, GRPCConnectionFromConfigs []]
           @ (if snd built \<noteq> None then [Log ErrorLevel failed_connection (snd built)] else [])
           @ [OrdererFromGRPC (fst built)]
           @ (if snd made \<noteq> None then [Log ErrorLevel failed_orderer None] else [])
           @ [ChannelConstructed n (case ord of None \<Rightarrow> w_allocs w | Some x \<Rightarrow> Suc (w_allocs w))]"
proof -
  from assms(1) obtain lg where lg: "logger (w_core w) = Some lg" by auto
  have flat: "appendOrderers [] (Orderers_of d) = []"
    using assms(6) by (simp add: appendOrderers_concat)
  from discoverOrderer_custom [OF assms(3,4,5), of "w_allocs w"]
  have "discoverOrderer e (w_core w) (w_allocs w) n =
      ([Log DebugLevel initiating_new None, DiscoveryChannel n, GRPCConnectionFromConfigs []]
         @ (if snd built \<noteq> None then [Log ErrorLevel failed_connection (snd built)] else [])
         @ [OrdererFromGRPC (fst built)]
         @ (if snd made \<noteq> None then [Log ErrorLevel failed_orderer None] else []),
       Returned ord)"
    by (simp add: customOrderer_eq flat assms(7,8,9))
  from Channel_resolved [OF lg assms(2) this refl] flat show ?thesis
    by (auto split: option.splits)
qed

theorem Channel_endpoints_without_addresses_witness:
  "appendOrderers [] [\<lparr>MspID = ''OrdererMSP'', HostAddresses = []\<rparr>] = [] \<and>
   (\<exists>ch. fst (Channel env0 (fresh core0) ''hollow'') = Returned ch \<and>
         ch_orderer ch = Some (Orderer (Suc 0))) \<and>
   w_trace (snd (Channel env0 (fresh core0) ''hollow'')) =
     [Log DebugLevel initiating_new None, DiscoveryChannel ''hollow'', GRPCConnectionFromConfigs [],
      OrdererFromGRPC (Some (ClientConn 0)), ChannelConstructed ''hollow'' (Suc (Suc 0))]"
  using Channel_endpoints_without_addresses [of "fresh core0" "''hollow''" "DiscoveryProvider 0" env0
      "\<lparr>Orderers_of = [\<lparr>MspID = ''OrdererMSP'', HostAddresses = []\<rparr>], ChannelName = ''hollow''\<rparr>"
      "(Some (ClientConn 0), None)" "(True, None)" "Some (Orderer (Suc 0))"]
  by (simp add: env0_simps newOrderer_def)

end
